theory Spec2Isabelle
  imports Main
begin

section \<open>Stream tester: data model\<close>

text \<open>
  The controller component \<open>StreamTester\<close> (the nine-format version, file
  \<^verbatim>\<open>unnamed/part_000\<close>) keeps its state in reactive signals and a few closure variables.
  The union type \<^verbatim>\<open>VideoFormat\<close> is a datatype, the status union
  \<^verbatim>\<open>"success" | "error" | "loading"\<close> is \<open>Status\<close>, and the wider union of
  \<^verbatim>\<open>StreamResult.status\<close>, which adds \<^verbatim>\<open>"not-tested"\<close>, wraps it.
\<close>

datatype VideoFormat = Hls | Dash | Webrtc | Mp4 | Rtmp | Rtsp | Srt | Flv | Smooth

datatype Status = Success | Error | Loading

datatype ResultStatus = Tested Status | NotTested

text \<open>
  \<^verbatim>\<open>interface StreamResult { format; url; status; timestamp }\<close>. The field names carry the
  prefix \<open>r_\<close> because the component has a signal that is also called \<open>status\<close>.
\<close>

record StreamResult =
  r_format :: VideoFormat
  r_url :: string
  r_status :: ResultStatus
  r_timestamp :: nat

text \<open>
  The signals of the component, followed by its pending timers. \<open>formatChangeTimer\<close> and
  \<open>urlChangeTimer\<close> hold the argument captured by the pending debounce callback (a new
  call clears the old timer, so at most one of each is pending). \<open>startTimers\<close> counts the
  pending \<^verbatim>\<open>setTimeout(() => handleStartTest(), 150)\<close> callbacks and \<open>resetTimers\<close> the
  pending callbacks of \<^verbatim>\<open>resetPlayStatus\<close>; neither is ever cancelled by the source.
  \<open>alerts\<close> counts the \<^verbatim>\<open>alert\<close> dialogs shown.
\<close>

record tester =
  selectedFormat :: VideoFormat
  inputUrl :: string
  isTestActive :: bool
  status :: Status
  results :: "StreamResult list"
  backupUrlIndex :: int
  formatChangeTimer :: "VideoFormat option"
  urlChangeTimer :: "(string \<times> bool) option"
  startTimers :: nat
  resetTimers :: nat
  alerts :: nat

subsection \<open>The sample catalogue\<close>

text \<open>\<^verbatim>\<open>SAMPLE_STREAMS[format]\<close>: the primary URL of each format.\<close>

fun SAMPLE_STREAMS :: "VideoFormat \<Rightarrow> string" where
  "SAMPLE_STREAMS Hls = ''https://test-streams.mux.dev/x36xhzz/x36xhzz.m3u8''"
| "SAMPLE_STREAMS Dash = ''https://dash.akamaized.net/akamai/test/caption_test/ElephantsDream/elephants_dream_480p_heaac5_1.mpd''"
| "SAMPLE_STREAMS Webrtc = ''wss://demo.cloudwebrtc.com:8443/ws''"
| "SAMPLE_STREAMS Mp4 = ''https://test-videos.co.uk/vids/bigbuckbunny/mp4/h264/360/Big_Buck_Bunny_360_10s_1MB.mp4''"
| "SAMPLE_STREAMS Rtmp = ''rtmp://live.twitch.tv/app/''"
| "SAMPLE_STREAMS Rtsp = ''rtsp://wowzaec2demo.streamlock.net/vod/mp4:BigBuckBunny_115k.mp4''"
| "SAMPLE_STREAMS Srt = ''srt://18.138.248.25:30000''"
| "SAMPLE_STREAMS Flv = ''https://samples.mux.dev/big_buck_bunny_720p_1mb.flv''"
| "SAMPLE_STREAMS Smooth = ''https://test.playready.microsoft.com/smoothstreaming/SSWSS720H264/SuperSpeedway_720.ism/manifest''"

text \<open>\<^verbatim>\<open>SAMPLE_STREAMS[`${format}Backup`]\<close>: the ordered backup URLs of each format.\<close>

fun SAMPLE_BACKUPS :: "VideoFormat \<Rightarrow> string list" where
  "SAMPLE_BACKUPS Hls =
     [''https://demo.unified-streaming.com/k8s/features/stable/video/tears-of-steel/tears-of-steel.ism/.m3u8'',
      ''https://playertest.longtailvideo.com/adaptive/bipbop/gear4/prog_index.m3u8'',
      ''https://cph-p2p-msl.akamaized.net/hls/live/2000341/test/master.m3u8'']"
| "SAMPLE_BACKUPS Dash =
     [''https://demo.unified-streaming.com/k8s/features/stable/video/tears-of-steel/tears-of-steel.ism/.mpd'',
      ''https://livesim.dashif.org/livesim/chunkdur_1/ato_7/testpic4_8s/Manifest.mpd'',
      ''https://dash.akamaized.net/dash264/TestCases/1a/sony/SNE_DASH_SD_CASE1A_REVISED.mpd'']"
| "SAMPLE_BACKUPS Webrtc =
     [''wss://webrtc.live-video.net/janus'',
      ''wss://webrtc-signaling.millicast.com/ws'',
      ''wss://webrtc.echotest.io/ws'']"
| "SAMPLE_BACKUPS Mp4 =
     [''https://media.w3.org/2010/05/sintel/trailer.mp4'',
      ''https://demo.unified-streaming.com/video/tears-of-steel/tears-of-steel.mp4'']"
| "SAMPLE_BACKUPS Rtmp =
     [''rtmp://fms.105.net/live/rmc1'',
      ''rtmp://streaming.cityofboston.gov/live/cable'']"
| "SAMPLE_BACKUPS Rtsp =
     [''rtsp://demo.unified-streaming.com/video/tears-of-steel/tears-of-steel.mp4'',
      ''rtsp://streaming.cityofboston.gov/live/cable'']"
| "SAMPLE_BACKUPS Srt =
     [''srt://srt-demo.streamroot.io:7001'',
      ''srt://srt.streamroot.io:1234'']"
| "SAMPLE_BACKUPS Flv =
     [''https://dc.demuxed.com/video.flv'',
      ''https://cdn.jsdelivr.net/gh/mayeaux/videojs-flashls-source-handler/video/test.flv'',
      ''https://cdn.plyr.io/static/demo/View_From_A_Blue_Moon_Trailer-960x540.flv'']"
| "SAMPLE_BACKUPS Smooth =
     [''https://playready.directtaps.net/smoothstreaming/SSWSS720H264PR/SuperSpeedway_720.ism/Manifest'',
      ''http://amssamples.streaming.mediaservices.windows.net/49b57c87-f5f3-48b3-ba22-c55cfdffa9cb/Sintel.ism/manifest'']"


text \<open>
  \<^verbatim>\<open>getCurrentUrl(format, backupIndex = -1)\<close>. An index at or past the end of the backup
  list yields the primary URL. For an index below \<open>-1\<close> the source reads
  \<^verbatim>\<open>backups[backupIndex]\<close>, which is \<^verbatim>\<open>undefined\<close>; the model returns the empty string
  there, the other falsy value a URL can take.
\<close>

definition getCurrentUrl :: "VideoFormat \<Rightarrow> int \<Rightarrow> string" where
  "getCurrentUrl fmt backupIndex =
     (if backupIndex = - 1 then SAMPLE_STREAMS fmt
      else if backupIndex \<ge> int (length (SAMPLE_BACKUPS fmt)) then SAMPLE_STREAMS fmt
      else if backupIndex < 0 then []
      else SAMPLE_BACKUPS fmt ! nat backupIndex)"

text \<open>\<^verbatim>\<open>getBackupCount(format)\<close>: \<^verbatim>\<open>backups?.length || 0\<close>.\<close>

definition getBackupCount :: "VideoFormat \<Rightarrow> int" where
  "getBackupCount fmt = int (length (SAMPLE_BACKUPS fmt))"

text \<open>
  The remainder operator \<^verbatim>\<open>%\<close> of JavaScript on integers: the result takes the sign of the
  dividend. Every call in the source sits under the guard \<^verbatim>\<open>backupCount > 0\<close>, so the
  divisor is never zero (which would give \<^verbatim>\<open>NaN\<close>).
\<close>

definition js_rem :: "int \<Rightarrow> int \<Rightarrow> int" where
  "js_rem a b = sgn a * (\<bar>a\<bar> mod \<bar>b\<bar>)"

section \<open>Stream tester: handlers\<close>

text \<open>The component right after construction.\<close>

definition initialTester :: tester where
  "initialTester =
     \<lparr> selectedFormat = Hls, inputUrl = SAMPLE_STREAMS Hls, isTestActive = False,
       status = Loading, results = [], backupUrlIndex = - 1,
       formatChangeTimer = None, urlChangeTimer = None,
       startTimers = 0, resetTimers = 0, alerts = 0 \<rparr>"


definition resetPlayStatusCallback :: "tester \<Rightarrow> tester" where
  "resetPlayStatusCallback s =
     (if resetTimers s = 0 then s
      else
        let s1 = s\<lparr>resetTimers := resetTimers s - 1, status := Loading\<rparr>
        in (case results s1 of
              [] \<Rightarrow> s1
            | r # rs \<Rightarrow> if r_status r = Tested Loading then s1\<lparr>results := rs\<rparr> else s1))"

definition resetBackupIndex :: "tester \<Rightarrow> tester" where
  "resetBackupIndex s = s\<lparr>backupUrlIndex := - 1\<rparr>"

text \<open>
  \<^verbatim>\<open>debouncedFormatChange\<close>: clears the pending timer, stops the test and schedules the
  batch that sets the format, resets the backup index and loads the primary URL (100 ms).
\<close>

definition debouncedFormatChange :: "VideoFormat \<Rightarrow> tester \<Rightarrow> tester" where
  "debouncedFormatChange fmt s = s\<lparr>isTestActive := False, formatChangeTimer := Some fmt\<rparr>"

definition formatChangeCallback :: "tester \<Rightarrow> tester" where
  "formatChangeCallback s =
     (case formatChangeTimer s of
        None \<Rightarrow> s
      | Some fmt \<Rightarrow>
          (resetBackupIndex (s\<lparr>formatChangeTimer := None, selectedFormat := fmt\<rparr>))
            \<lparr>inputUrl := SAMPLE_STREAMS fmt\<rparr>)"

text \<open>\<^verbatim>\<open>debouncedUrlChange(url, resetBackup = true)\<close> and its callback (100 ms).\<close>

definition debouncedUrlChange :: "string \<Rightarrow> bool \<Rightarrow> tester \<Rightarrow> tester" where
  "debouncedUrlChange url resetBackup s =
     s\<lparr>isTestActive := False, urlChangeTimer := Some (url, resetBackup)\<rparr>"

definition urlChangeCallback :: "tester \<Rightarrow> tester" where
  "urlChangeCallback s =
     (case urlChangeTimer s of
        None \<Rightarrow> s
      | Some (url, resetBackup) \<Rightarrow>
          let s1 = s\<lparr>urlChangeTimer := None, inputUrl := url\<rparr>
          in if resetBackup then resetBackupIndex s1 else s1)"

text \<open>
  \<^verbatim>\<open>handleStartTest\<close>; \<open>now\<close> is the value of \<^verbatim>\<open>Date.now()\<close>. The log keeps the ten newest
  records, newest first.
\<close>

definition handleStartTest :: "nat \<Rightarrow> tester \<Rightarrow> tester" where
  "handleStartTest now s =
     (if inputUrl s = [] then s\<lparr>alerts := Suc (alerts s)\<rparr>
      else
        let newResult = \<lparr> r_format = selectedFormat s, r_url = inputUrl s,
                          r_status = Tested Loading, r_timestamp = now \<rparr>
        in s\<lparr>isTestActive := True, status := Loading,
             results := take 10 (newResult # results s)\<rparr>)"

text \<open>
  \<^verbatim>\<open>handleStatusChange(newStatus)\<close>, the callback handed to the player. It stores the
  status, overwrites the status of the head record, and under its guard switches to the
  first backup URL and starts a test.
\<close>

definition handleStatusChange :: "Status \<Rightarrow> nat \<Rightarrow> tester \<Rightarrow> tester" where
  "handleStatusChange newStatus now s =
     (let s1 = s\<lparr>status := newStatus\<rparr>;
          s2 = s1\<lparr>results :=
                    (case results s1 of
                       [] \<Rightarrow> []
                     | r # rs \<Rightarrow> r\<lparr>r_status := Tested newStatus\<rparr> # rs)\<rparr>
      in if newStatus = Error \<and> \<not> isTestActive s2 then
           let fmt = selectedFormat s2; backupCount = getBackupCount fmt
           in if backupCount > 0 \<and> backupUrlIndex s2 = - 1 then
                handleStartTest now (s2\<lparr>backupUrlIndex := 0, inputUrl := getCurrentUrl fmt 0\<rparr>)
              else s2
         else s2)"

definition handleStopTest :: "tester \<Rightarrow> tester" where
  "handleStopTest s = s\<lparr>isTestActive := False\<rparr>"

subsection \<open>Button handlers written inline in the markup\<close>

text \<open>The "Primary URL" button (disabled when the format has no sample URL).\<close>

definition primaryUrlClick :: "tester \<Rightarrow> tester" where
  "primaryUrlClick s =
     (if SAMPLE_STREAMS (selectedFormat s) = [] then s
      else debouncedUrlChange (SAMPLE_STREAMS (selectedFormat s)) False (resetBackupIndex s))"

text \<open>The "Backup URL" button: the user-triggered fallback step beside the URL input.\<close>

definition backupUrlClick :: "tester \<Rightarrow> tester" where
  "backupUrlClick s =
     (let currentFormat = selectedFormat s; backupCount = getBackupCount currentFormat
      in if backupCount > 0 then
           let nextIndex = js_rem (backupUrlIndex s + 1) backupCount
           in debouncedUrlChange (getCurrentUrl currentFormat nextIndex) False
                (s\<lparr>backupUrlIndex := nextIndex\<rparr>)
         else s)"

text \<open>The "Try Primary Source" button of the error panel.\<close>

definition tryPrimaryClick :: "nat \<Rightarrow> tester \<Rightarrow> tester" where
  "tryPrimaryClick now s =
     handleStartTest now
       (debouncedUrlChange (SAMPLE_STREAMS (selectedFormat s)) False (resetBackupIndex s))"

text \<open>
  The "Try Next Backup Source" button of the error panel: the user-triggered fallback
  step that also schedules a start of the test (150 ms).
\<close>

definition tryNextBackupClick :: "tester \<Rightarrow> tester" where
  "tryNextBackupClick s =
     (let fmt = selectedFormat s; backupCount = getBackupCount fmt
      in if backupCount > 0 then
           let nextIndex = js_rem (backupUrlIndex s + 1) backupCount;
               s1 = debouncedUrlChange (getCurrentUrl fmt nextIndex) False
                      (s\<lparr>backupUrlIndex := nextIndex\<rparr>)
           in s1\<lparr>startTimers := Suc (startTimers s1)\<rparr>
         else s)"

definition startTimerCallback :: "nat \<Rightarrow> tester \<Rightarrow> tester" where
  "startTimerCallback now s =
     (if startTimers s = 0 then s
      else handleStartTest now (s\<lparr>startTimers := startTimers s - 1\<rparr>))"

text \<open>
  A user-triggered fallback step: the "Try Next Backup Source" button of the error panel
  when \<open>viaPanel\<close> holds, else the "Backup URL" button beside the input.
\<close>

definition userFallbackStep :: "bool \<Rightarrow> tester \<Rightarrow> tester" where
  "userFallbackStep viaPanel s = (if viaPanel then tryNextBackupClick s else backupUrlClick s)"

subsection \<open>Events of the component\<close>

text \<open>
  Everything that can run a handler of the component between two steps of a sweep: a
  click (enabled as the markup enables it), a status callback of the player, or a pending
  timer firing. Timers may fire in any order, which covers every real schedule.
\<close>

datatype action =
    SelectFormat VideoFormat
  | FormatTimer
  | UrlInput string
  | UrlTimer
  | PrimaryUrl
  | BackupUrl
  | StartClick nat
  | StopClick
  | PlayerStatus Status nat
  | TryPrimary nat
  | TryNextBackup
  | StartTimer nat
  | ResetTimer

definition errorPanelShown :: "tester \<Rightarrow> bool" where
  "errorPanelShown s \<longleftrightarrow>
     isTestActive s \<and> status s = Error \<and> getBackupCount (selectedFormat s) > 0"

fun step :: "action \<Rightarrow> tester \<Rightarrow> tester" where
  "step (SelectFormat fmt) s = (if \<not> isTestActive s then debouncedFormatChange fmt s else s)"
| "step FormatTimer s = formatChangeCallback s"
| "step (UrlInput url) s = (if \<not> isTestActive s then debouncedUrlChange url True s else s)"
| "step UrlTimer s = urlChangeCallback s"
| "step PrimaryUrl s = primaryUrlClick s"
| "step BackupUrl s = backupUrlClick s"
| "step (StartClick now) s = (if \<not> isTestActive s then handleStartTest now s else s)"
| "step StopClick s = (if isTestActive s then handleStopTest s else s)"
| "step (PlayerStatus st now) s = handleStatusChange st now s"
| "step (TryPrimary now) s = (if errorPanelShown s then tryPrimaryClick now s else s)"
| "step TryNextBackup s = (if errorPanelShown s then tryNextBackupClick s else s)"
| "step (StartTimer now) s = startTimerCallback now s"
| "step ResetTimer s = resetPlayStatusCallback s"

definition run :: "action list \<Rightarrow> tester \<Rightarrow> tester" where
  "run acts s = foldl (\<lambda>s a. step a s) s acts"

section \<open>Sweep over all formats\<close>




text \<open>The first batch of the loop body; \<^verbatim>\<open>url = getCurrentUrl(format)\<close> uses the default index.\<close>

definition sweepSelect :: "VideoFormat \<Rightarrow> tester \<Rightarrow> tester" where
  "sweepSelect fmt s =
     (resetBackupIndex (s\<lparr>selectedFormat := fmt\<rparr>))\<lparr>inputUrl := getCurrentUrl fmt (- 1)\<rparr>"

text \<open>The second batch of the loop body.\<close>

definition sweepStart :: "VideoFormat \<Rightarrow> nat \<Rightarrow> tester \<Rightarrow> tester" where
  "sweepStart fmt now s =
     (let newResult = \<lparr> r_format = fmt, r_url = getCurrentUrl fmt (- 1),
                        r_status = Tested Loading, r_timestamp = now \<rparr>
      in s\<lparr>isTestActive := True, status := Loading,
           results := take 10 (newResult # results s)\<rparr>)"







section \<open>Video player: data model\<close>

text \<open>
  The component \<open>VideoPlayer\<close> (file \<^verbatim>\<open>src/components/VideoPlayer.tsx\<close>) owns the output
  surface, six engine and connection handles, and a local status signal. Its handlers
  run one at a time on the event loop; each is modelled as one step on the record below,
  with the promises it awaits settled inside the step.
\<close>

subsection \<open>Parsed signaling messages\<close>

text \<open>
  The value that \<^verbatim>\<open>JSON.parse(event.data)\<close> returns. Only the truthiness of a number
  matters to the handlers, so numbers are integers. A missing property is
  \<^verbatim>\<open>undefined\<close>, modelled as \<open>None\<close>.
\<close>

datatype json =
    JNull
  | JBool bool
  | JNum int
  | JStr string
  | JArr "json list"
  | JObj "(string \<times> json) list"

text \<open>What a message event carries: data that does not parse, or the parsed value.\<close>

datatype payload = Malformed | Parsed json

text \<open>
  \<^verbatim>\<open>v.k\<close> for a value \<open>v\<close> other than \<^verbatim>\<open>null\<close> (on \<^verbatim>\<open>null\<close> the access throws, which
  the handlers below test first). A later duplicate key wins, as in \<^verbatim>\<open>JSON.parse\<close>; values
  that are not objects have none of the properties the handlers read.
\<close>

fun getProp :: "json \<Rightarrow> string \<Rightarrow> json option" where
  "getProp (JObj kvs) k = map_of (rev kvs) k"
| "getProp v k = None"

text \<open>\<^verbatim>\<open>v?.k\<close>, the optional chaining used in \<^verbatim>\<open>response.data?.id\<close>.\<close>

fun optProp :: "json option \<Rightarrow> string \<Rightarrow> json option" where
  "optProp None k = None"
| "optProp (Some JNull) k = None"
| "optProp (Some v) k = getProp v k"

text \<open>Truthiness of a value in a condition.\<close>

fun truthy :: "json option \<Rightarrow> bool" where
  "truthy None = False"
| "truthy (Some JNull) = False"
| "truthy (Some (JBool b)) = b"
| "truthy (Some (JNum n)) = (n \<noteq> 0)"
| "truthy (Some (JStr s)) = (s \<noteq> [])"
| "truthy (Some (JArr xs)) = True"
| "truthy (Some (JObj kvs)) = True"

text \<open>\<^verbatim>\<open>v === "s"\<close> for a string literal.\<close>

definition isStr :: "json option \<Rightarrow> string \<Rightarrow> bool" where
  "isStr v s \<longleftrightarrow> v = Some (JStr s)"

subsection \<open>String helpers\<close>

text \<open>\<^verbatim>\<open>toLowerCase\<close>, \<^verbatim>\<open>startsWith\<close>, \<^verbatim>\<open>endsWith\<close> and \<^verbatim>\<open>includes\<close> (here \<open>includesStr\<close>) on ASCII strings.\<close>

definition lowerChar :: "char \<Rightarrow> char" where
  "lowerChar c =
     (let n = (of_char c :: nat) in if 65 \<le> n \<and> n \<le> 90 then char_of (n + 32) else c)"

definition toLowerCase :: "string \<Rightarrow> string" where
  "toLowerCase s = map lowerChar s"

fun startsWith :: "string \<Rightarrow> string \<Rightarrow> bool" where
  "startsWith s [] = True"
| "startsWith [] (c # cs) = False"
| "startsWith (x # xs) (c # cs) = (x = c \<and> startsWith xs cs)"

definition endsWith :: "string \<Rightarrow> string \<Rightarrow> bool" where
  "endsWith s suffix = startsWith (rev s) (rev suffix)"

fun includesStr :: "string \<Rightarrow> string \<Rightarrow> bool" where
  "includesStr [] needle = (needle = [])"
| "includesStr (x # xs) needle = (startsWith (x # xs) needle \<or> includesStr xs needle)"

subsection \<open>Runtime\<close>

text \<open>
  The library and browser calls that can throw. The source wraps them in
  \<^verbatim>\<open>try/catch\<close>; whether a call throws is decided by the runtime.
\<close>

datatype Call =
    NewHls | HlsAttachMedia
  | DashCreate | DashInitialize
  | NewShakaPlayer
  | NewPeerConnection | CreateOffer | SetRemoteDescription | AddIceCandidate
  | NewWebSocket
  | FlvCreatePlayer | FlvAttachLoad | VideoPlay | VideoPlayRetry
  | HlsDestroy | DashReset | ShakaDestroy | PeerClose | SocketCloseCall
  | FlvPause | FlvUnload | FlvDetachMediaElement | FlvDestroy
  | VideoElementReset | OverlayRemoval

text \<open>
  The capability probes the player reads (\<^verbatim>\<open>Hls.isSupported()\<close>,
  \<^verbatim>\<open>canPlayType("application/vnd.apple.mpegurl")\<close>, \<^verbatim>\<open>flvjs.isSupported()\<close>,
  \<^verbatim>\<open>shaka.Player.isBrowserSupported()\<close>, \<^verbatim>\<open>window.RTCPeerConnection\<close>) and the calls that
  throw.
\<close>

record Env =
  hlsSupported :: bool
  nativeHls :: bool
  flvSupported :: bool
  shakaSupported :: bool
  rtcSupported :: bool
  fails :: "Call \<Rightarrow> bool"

subsection \<open>State of the component\<close>

datatype EngineKind = HlsEngine | DashEngine | ShakaEngine | PeerConn | WebSock | FlvEngine

datatype ReadyState = CONNECTING | OPEN | CLOSING | CLOSED

text \<open>The three sets of socket handlers; the URL selects one.\<close>

datatype Dialect = Generic | Janus | EchoTest

text \<open>The messages the handlers send (the random transaction id is left out).\<close>

datatype outMsg =
    OfferMsg
  | JanusCreate
  | JanusAttach "json option"
  | JanusOffer "json option" "json option"

text \<open>
  What the component does to the outside, in order. \<open>Created\<close> and \<open>Released\<close> name an
  engine or connection instance by kind and serial number; \<open>Released\<close> records that the
  source invoked the release operation of the instance (\<^verbatim>\<open>destroy\<close>, \<^verbatim>\<open>reset\<close>,
  \<^verbatim>\<open>close\<close>). \<open>Request\<close> records that loading of a URL or a connection to it was started.
  \<open>Reported\<close> is a call of \<^verbatim>\<open>props.onStatusChange\<close>.
\<close>

datatype event =
    Created EngineKind nat
  | Released EngineKind nat
  | Request string
  | Reported Status
  | Overlay string
  | ConsoleError string
  | Sent outMsg
  | ElementReset

text \<open>
  The variables of the component. \<open>socketState\<close>, \<open>socketDialect\<close>, \<open>sessionId\<close> and
  \<open>handleId\<close> belong to the socket last created (its ready state, its handlers and their
  closure variables). \<open>pendingInits\<close> counts the pending
  \<^verbatim>\<open>setTimeout(() => initializePlayer(), 50)\<close> callbacks and \<open>closingSockets\<close> the sockets
  closed by a teardown whose close event is still to come. The last four fields are
  bookkeeping of the model: \<open>live\<close> lists the instances created and not yet released or
  closed, each with its kind, serial number and the number of the initialization that
  created it; \<open>generation\<close> counts the initializations; \<open>nextId\<close> is the next serial number.
\<close>

record player =
  videoRef :: bool
  props_format :: VideoFormat
  props_url :: string
  hlsInstance :: "nat option"
  dashInstance :: "nat option"
  shakaInstance :: "nat option"
  peerConnection :: "nat option"
  webSocketConnection :: "nat option"
  flvPlayer :: "nat option"
  playerStatus :: Status
  videoSrc :: string
  srcObject :: bool
  overlays :: "string list"
  socketState :: ReadyState
  socketDialect :: "Dialect option"
  sessionId :: "json option"
  handleId :: "json option"
  pendingInits :: nat
  closingSockets :: nat
  live :: "(EngineKind \<times> nat \<times> nat) list"
  generation :: nat
  nextId :: nat
  trace :: "event list"

text \<open>The outcome of a block of statements: it ran to its end, or it threw.\<close>

datatype result = Done player | Threw player

text \<open>\<^verbatim>\<open>try { body } catch (e) { handler }\<close>.\<close>

definition try_catch :: "result \<Rightarrow> (player \<Rightarrow> player) \<Rightarrow> player" where
  "try_catch body handler = (case body of Done p \<Rightarrow> p | Threw p \<Rightarrow> handler p)"

text \<open>The handle variable of each kind of instance.\<close>

fun slot :: "player \<Rightarrow> EngineKind \<Rightarrow> nat option" where
  "slot p HlsEngine = hlsInstance p"
| "slot p DashEngine = dashInstance p"
| "slot p ShakaEngine = shakaInstance p"
| "slot p PeerConn = peerConnection p"
| "slot p WebSock = webSocketConnection p"
| "slot p FlvEngine = flvPlayer p"

fun setSlot :: "EngineKind \<Rightarrow> nat option \<Rightarrow> player \<Rightarrow> player" where
  "setSlot HlsEngine h p = p\<lparr>hlsInstance := h\<rparr>"
| "setSlot DashEngine h p = p\<lparr>dashInstance := h\<rparr>"
| "setSlot ShakaEngine h p = p\<lparr>shakaInstance := h\<rparr>"
| "setSlot PeerConn h p = p\<lparr>peerConnection := h\<rparr>"
| "setSlot WebSock h p = p\<lparr>webSocketConnection := h\<rparr>"
| "setSlot FlvEngine h p = p\<lparr>flvPlayer := h\<rparr>"

definition emit :: "event \<Rightarrow> player \<Rightarrow> player" where
  "emit e p = p\<lparr>trace := trace p @ [e]\<rparr>"

text \<open>\<^verbatim>\<open>setStatus(st); props.onStatusChange(st)\<close>, the pair every status change consists of.\<close>

definition report :: "Status \<Rightarrow> player \<Rightarrow> player" where
  "report st p = emit (Reported st) (p\<lparr>playerStatus := st\<rparr>)"

definition consoleError :: "string \<Rightarrow> player \<Rightarrow> player" where
  "consoleError msg p = emit (ConsoleError msg) p"

text \<open>An overlay element with the given headline is added next to the video element.\<close>

definition overlay :: "string \<Rightarrow> player \<Rightarrow> player" where
  "overlay msg p = emit (Overlay msg) (p\<lparr>overlays := overlays p @ [msg]\<rparr>)"

definition request :: "string \<Rightarrow> player \<Rightarrow> player" where
  "request u p = emit (Request u) p"

definition send :: "outMsg \<Rightarrow> player \<Rightarrow> player" where
  "send m p = emit (Sent m) p"

text \<open>\<^verbatim>\<open>handle = new Engine(...)\<close>: a new instance, stored in the handle variable of its kind.\<close>

definition create :: "EngineKind \<Rightarrow> player \<Rightarrow> player" where
  "create k p =
     emit (Created k (nextId p))
       ((setSlot k (Some (nextId p)) p)
          \<lparr>live := live p @ [(k, nextId p, generation p)], nextId := Suc (nextId p)\<rparr>)"

text \<open>The release operation of instance \<open>i\<close> of kind \<open>k\<close> is invoked.\<close>

definition invokeRelease :: "EngineKind \<Rightarrow> nat \<Rightarrow> player \<Rightarrow> player" where
  "invokeRelease k i p =
     emit (Released k i)
       (p\<lparr>live := filter (\<lambda>(k', i', g). \<not> (k' = k \<and> i' = i)) (live p)\<rparr>)"

section \<open>Video player: teardown\<close>

text \<open>
  One block of \<^verbatim>\<open>destroyPlayers\<close> whose \<^verbatim>\<open>try\<close> holds the release call alone:
  \<^verbatim>\<open>if (h) { try { h.destroy(); } catch (e) { console.error(msg, e); } h = null; }\<close>.
  This is the text of the blocks of the HLS, DASH and Shaka engines and of the peer
  connection.
\<close>

definition releaseHandle :: "Env \<Rightarrow> Call \<Rightarrow> string \<Rightarrow> EngineKind \<Rightarrow> player \<Rightarrow> player" where
  "releaseHandle env c msg k p =
     (case slot p k of
        None \<Rightarrow> p
      | Some i \<Rightarrow>
          setSlot k None
            (try_catch
               (if fails env c then Threw (invokeRelease k i p) else Done (invokeRelease k i p))
               (consoleError msg)))"

text \<open>The socket block: \<^verbatim>\<open>close()\<close> is called only on an open or connecting socket.\<close>

definition closeSocket :: "Env \<Rightarrow> player \<Rightarrow> player" where
  "closeSocket env p =
     (case webSocketConnection p of
        None \<Rightarrow> p
      | Some i \<Rightarrow>
          (try_catch
             (if socketState p = OPEN \<or> socketState p = CONNECTING then
                (let p1 = (invokeRelease WebSock i p)
                            \<lparr>socketState := CLOSING, closingSockets := Suc (closingSockets p)\<rparr>
                 in if fails env SocketCloseCall then Threw p1 else Done p1)
              else Done p)
             (consoleError ''Error closing WebSocket connection:''))
            \<lparr>webSocketConnection := None\<rparr>)"

text \<open>The block that stops the tracks, pauses the element and clears its source.\<close>

definition resetVideo :: "Env \<Rightarrow> player \<Rightarrow> player" where
  "resetVideo env p =
     (if videoRef p then
        try_catch
          (if fails env VideoElementReset then Threw p
           else Done (emit ElementReset (p\<lparr>srcObject := False, videoSrc := []\<rparr>)))
          (consoleError ''Error resetting video element:'')
      else p)"

text \<open>The block that removes the overlays next to the video element.\<close>

definition clearOverlays :: "Env \<Rightarrow> player \<Rightarrow> player" where
  "clearOverlays env p =
     (if videoRef p then
        try_catch
          (if fails env OverlayRemoval then Threw p else Done (p\<lparr>overlays := []\<rparr>))
          (consoleError ''Error removing overlays:'')
      else p)"

text \<open>
  The block of the FLV engine. Its \<^verbatim>\<open>try\<close> holds four calls,
  \<^verbatim>\<open>pause(); unload(); detachMediaElement(); destroy();\<close>, so when one of the first three
  throws, \<^verbatim>\<open>destroy()\<close> is never invoked; the handle variable is cleared all the same.
\<close>

definition releaseFlv :: "Env \<Rightarrow> player \<Rightarrow> player" where
  "releaseFlv env p =
     (case flvPlayer p of
        None \<Rightarrow> p
      | Some i \<Rightarrow>
          (try_catch
             (if fails env FlvPause then Threw p
              else if fails env FlvUnload then Threw p
              else if fails env FlvDetachMediaElement then Threw p
              else if fails env FlvDestroy then Threw (invokeRelease FlvEngine i p)
              else Done (invokeRelease FlvEngine i p))
             (consoleError ''Error destroying FLV player:''))
            \<lparr>flvPlayer := None\<rparr>)"

text \<open>\<^verbatim>\<open>destroyPlayers\<close>, its eight blocks in the order of the source.\<close>

definition destroyPlayers :: "Env \<Rightarrow> player \<Rightarrow> result" where
  "destroyPlayers env p =
     (let p1 = releaseHandle env HlsDestroy ''Error destroying HLS instance:'' HlsEngine p;
          p2 = releaseHandle env DashReset ''Error resetting DASH instance:'' DashEngine p1;
          p3 = releaseHandle env ShakaDestroy ''Error destroying Shaka instance:'' ShakaEngine p2;
          p4 = releaseHandle env PeerClose ''Error closing peer connection:'' PeerConn p3;
          p5 = closeSocket env p4;
          p6 = resetVideo env p5;
          p7 = clearOverlays env p6
      in Done (releaseFlv env p7))"

section \<open>Video player: initialization\<close>

text \<open>
  \<^verbatim>\<open>webSocketConnection = new WebSocket(props.url)\<close> followed by the assignment of the
  handlers of one dialect; the closure variables of \<^verbatim>\<open>connectToJanusServer\<close> start empty.
\<close>

definition connect :: "Dialect \<Rightarrow> player \<Rightarrow> player" where
  "connect d p =
     request (props_url p)
       ((create WebSock p)
          \<lparr>socketState := CONNECTING, socketDialect := Some d,
           sessionId := None, handleId := None\<rparr>)"

text \<open>\<^verbatim>\<open>videoRef.src = url\<close>: the element starts loading unless the URL is empty.\<close>

definition assignSrc :: "string \<Rightarrow> player \<Rightarrow> player" where
  "assignSrc u p = (if u = [] then p\<lparr>videoSrc := u\<rparr> else request u (p\<lparr>videoSrc := u\<rparr>))"

text \<open>
  \<^verbatim>\<open>initHLS\<close> has no \<^verbatim>\<open>try\<close> of its own: what its calls throw reaches the
  \<^verbatim>\<open>catch\<close> of \<^verbatim>\<open>initializePlayer\<close>. The engine requests the manifest once it has attached
  to the element.
\<close>

definition initHLS :: "Env \<Rightarrow> player \<Rightarrow> result" where
  "initHLS env p =
     (if hlsSupported env then
        (if fails env NewHls then Threw p
         else
           let p1 = create HlsEngine p
           in if fails env HlsAttachMedia then Threw p1 else Done (request (props_url p1) p1))
      else if nativeHls env then Done (assignSrc (props_url p) p)
      else Done (report Error (consoleError ''HLS is not supported on this browser'' p)))"

definition initDASH :: "Env \<Rightarrow> player \<Rightarrow> player" where
  "initDASH env p =
     try_catch
       (if fails env DashCreate then Threw p
        else
          let p1 = create DashEngine p
          in if fails env DashInitialize then Threw p1 else Done (request (props_url p1) p1))
       (\<lambda>q. report Error (consoleError ''Error initializing DASH player:'' q))"

text \<open>
  \<^verbatim>\<open>initFLV\<close>. When \<^verbatim>\<open>videoRef.play()\<close> throws instead of returning a promise, the inner
  \<^verbatim>\<open>catch\<close> calls it once more and reports success, or an error if it throws again.
\<close>

definition initFLV :: "Env \<Rightarrow> player \<Rightarrow> player" where
  "initFLV env p =
     try_catch
       (if fails env FlvCreatePlayer then Threw p
        else
          let p1 = create FlvEngine p
          in if fails env FlvAttachLoad then Threw p1
             else
               let p2 = request (props_url p1) p1
               in Done
                    (try_catch (if fails env VideoPlay then Threw p2 else Done p2)
                       (\<lambda>q. try_catch
                               (if fails env VideoPlayRetry then Threw q
                                else Done (report Success q))
                               (\<lambda>r. report Error
                                       (consoleError ''Error playing FLV (fallback):'' r)))))
       (\<lambda>q. report Error (consoleError ''Error initializing FLV player:'' q))"

text \<open>The \<^verbatim>\<open>"smooth"\<close> case of \<^verbatim>\<open>initializePlayer\<close> with its own \<^verbatim>\<open>try/catch\<close>.\<close>

definition initSmooth :: "Env \<Rightarrow> player \<Rightarrow> player" where
  "initSmooth env p =
     try_catch
       (if shakaSupported env then
          (if fails env NewShakaPlayer then Threw p
           else Done (request (props_url p) (create ShakaEngine p)))
        else Threw p)
       (\<lambda>q. report Error (consoleError ''Error initializing Smooth Streaming:'' q))"

definition connectToJanusServer :: "Env \<Rightarrow> player \<Rightarrow> player" where
  "connectToJanusServer env p =
     try_catch (if fails env NewWebSocket then Threw p else Done (connect Janus p))
       (\<lambda>q. report Error (consoleError ''Error connecting to Janus:'' q))"

definition connectToEchoTestServer :: "Env \<Rightarrow> player \<Rightarrow> player" where
  "connectToEchoTestServer env p =
     try_catch (if fails env NewWebSocket then Threw p else Done (connect EchoTest p))
       (\<lambda>q. report Error (consoleError ''Error connecting to Echo Test server:'' q))"

text \<open>
  \<^verbatim>\<open>initWebRTC\<close>: the URL selects the dialect; the default path creates the peer
  connection first and then, in an inner \<^verbatim>\<open>try\<close>, the socket.
\<close>

definition initWebRTC :: "Env \<Rightarrow> player \<Rightarrow> player" where
  "initWebRTC env p =
     try_catch
       (if \<not> rtcSupported env then Threw p
        else
          let p1 = overlay ''Connecting to WebRTC stream...'' p;
              url = toLowerCase (props_url p)
          in if includesStr url ''janus'' then Done (connectToJanusServer env p1)
             else if includesStr url ''echotest'' then Done (connectToEchoTestServer env p1)
             else if fails env NewPeerConnection then Threw p1
             else
               let p2 = create PeerConn p1
               in Done
                    (try_catch
                       (if props_url p2 = [] then Threw p2
                        else if fails env NewWebSocket then Threw p2
                        else Done (connect Generic p2))
                       (\<lambda>q. report Error
                               (consoleError ''Error connecting to signaling server:'' q))))
       (\<lambda>q. overlay ''WebRTC initialization failed''
               (report Error (consoleError ''Error initializing WebRTC:'' q)))"

text \<open>
  The \<^verbatim>\<open>switch (props.format)\<close> of \<^verbatim>\<open>initializePlayer\<close>. Its \<^verbatim>\<open>default\<close> case cannot be
  reached: the type has no tenth format.
\<close>

definition dispatch :: "Env \<Rightarrow> player \<Rightarrow> result" where
  "dispatch env p =
     (case props_format p of
        Hls \<Rightarrow> initHLS env p
      | Dash \<Rightarrow> Done (initDASH env p)
      | Webrtc \<Rightarrow> Done (initWebRTC env p)
      | Mp4 \<Rightarrow> Done (assignSrc (props_url p) p)
      | Rtmp \<Rightarrow> Done (overlay ''RTMP requires a custom implementation'' (report Error p))
      | Rtsp \<Rightarrow> Done (overlay ''RTSP is not supported in browsers'' (report Error p))
      | Srt \<Rightarrow> Done (overlay ''SRT is not supported in browsers'' (report Error p))
      | Flv \<Rightarrow>
          Done (if flvSupported env then initFLV env p
                else overlay ''FLV playback is not supported'' (report Error p))
      | Smooth \<Rightarrow> Done (initSmooth env p))"

text \<open>
  \<^verbatim>\<open>initializePlayer\<close>: return without a surface; else tear down, clear the source, report
  loading, and run the case of the format under \<^verbatim>\<open>try/catch\<close>.
\<close>

definition initializePlayer :: "Env \<Rightarrow> player \<Rightarrow> result" where
  "initializePlayer env p =
     (if \<not> videoRef p then Done p
      else
        (case destroyPlayers env p of
           Threw q \<Rightarrow> Threw q
         | Done p1 \<Rightarrow>
             let p2 = report Loading (p1\<lparr>videoSrc := [], generation := Suc (generation p1)\<rparr>)
             in Done
                  (try_catch (dispatch env p2)
                     (\<lambda>q. report Error (consoleError ''Error initializing player:'' q)))))"

subsection \<open>The legacy-push case with an HTTP-FLV relay\<close>

text \<open>
  In the other version of the component (file \<^verbatim>\<open>unnamed/part_002\<close>) the \<^verbatim>\<open>"rtmp"\<close> case
  tries flv.js on an HTTP-FLV address derived from the URL; the other cases that matter
  here (\<^verbatim>\<open>"rtsp"\<close>, \<^verbatim>\<open>"srt"\<close>) and \<^verbatim>\<open>destroyPlayers\<close> are the same text in both files.
\<close>

definition showRtmpFallbackOptions :: "player \<Rightarrow> player" where
  "showRtmpFallbackOptions p =
     (let p1 = report Error p
      in if videoRef p1 then overlay ''RTMP Playback Not Supported'' p1 else p1)"

text \<open>An instance held in a local variable only (\<^verbatim>\<open>const tempHls = new Hls()\<close>).\<close>

definition createLocal :: "EngineKind \<Rightarrow> player \<Rightarrow> player" where
  "createLocal k p =
     emit (Created k (nextId p))
       (p\<lparr>live := live p @ [(k, nextId p, generation p)], nextId := Suc (nextId p)\<rparr>)"

text \<open>\<^verbatim>\<open>tryHlsAlternative(rtmpUrl)\<close>: loads the first guessed playlist address in a temporary engine.\<close>

definition tryHlsAlternative :: "Env \<Rightarrow> string \<Rightarrow> player \<Rightarrow> player" where
  "tryHlsAlternative env rtmpUrl p =
     (if \<not> startsWith rtmpUrl ''rtmp://'' then p
      else
        try_catch
          (let urlWithoutProtocol = drop 7 rtmpUrl;
               domain = takeWhile (\<lambda>c. c \<noteq> CHR ''/'') urlWithoutProtocol;
               path = drop (Suc (length domain)) urlWithoutProtocol
           in if hlsSupported env then
                (if fails env NewHls then Threw p
                 else Done (request (''https://'' @ domain @ ''/'' @ path @ ''/playlist.m3u8'')
                              (createLocal HlsEngine p)))
              else Done p)
          (consoleError ''Error trying HLS alternative:''))"

text \<open>The \<^verbatim>\<open>"rtmp"\<close> case of \<^verbatim>\<open>initializePlayer\<close> in that version.\<close>

definition rtmpRelayCase :: "Env \<Rightarrow> player \<Rightarrow> player" where
  "rtmpRelayCase env p =
     try_catch
       (if flvSupported env then
          (let isRtmp = startsWith (props_url p) ''rtmp://'';
               converted = ''https://'' @ drop 7 (props_url p);
               httpFlvUrl =
                 (if isRtmp then
                    (if endsWith converted ''.flv'' then converted else converted @ ''.flv'')
                  else props_url p);
               p1 = (if isRtmp then tryHlsAlternative env (props_url p) p else p)
           in if fails env FlvCreatePlayer then Threw p1
              else
                let p2 = create FlvEngine p1
                in if fails env FlvAttachLoad then Threw p2
                   else
                     let p3 = request httpFlvUrl p2
                     in if fails env VideoPlay then Threw p3 else Done p3)
        else Done (showRtmpFallbackOptions p))
       (\<lambda>q. showRtmpFallbackOptions (consoleError ''Error initializing RTMP fallback:'' q))"

text \<open>
  The \<^verbatim>\<open>switch\<close> of that version: its \<^verbatim>\<open>"rtmp"\<close>, \<^verbatim>\<open>"rtsp"\<close> and \<^verbatim>\<open>"srt"\<close> cases. The
  cases of the other formats are not modelled; they are the parameter \<open>others\<close>.
\<close>

definition dispatchRelay :: "(Env \<Rightarrow> player \<Rightarrow> result) \<Rightarrow> Env \<Rightarrow> player \<Rightarrow> result" where
  "dispatchRelay others env p =
     (case props_format p of
        Rtmp \<Rightarrow> Done (rtmpRelayCase env p)
      | Rtsp \<Rightarrow> Done (overlay ''RTSP is not supported in browsers'' (report Error p))
      | Srt \<Rightarrow> Done (overlay ''SRT is not supported in browsers'' (report Error p))
      | _ \<Rightarrow> others env p)"

text \<open>\<^verbatim>\<open>initializePlayer\<close> of that version; its text around the \<^verbatim>\<open>switch\<close> is the same.\<close>

definition initializePlayerRelay ::
  "(Env \<Rightarrow> player \<Rightarrow> result) \<Rightarrow> Env \<Rightarrow> player \<Rightarrow> result" where
  "initializePlayerRelay others env p =
     (if \<not> videoRef p then Done p
      else
        (case destroyPlayers env p of
           Threw q \<Rightarrow> Threw q
         | Done p1 \<Rightarrow>
             let p2 = report Loading (p1\<lparr>videoSrc := [], generation := Suc (generation p1)\<rparr>)
             in Done
                  (try_catch (dispatchRelay others env p2)
                     (\<lambda>q. report Error (consoleError ''Error initializing player:'' q)))))"

section \<open>Video player: socket handlers\<close>

text \<open>\<^verbatim>\<open>webSocketConnection?.send(...)\<close>.\<close>

definition sendIfSocket :: "outMsg \<Rightarrow> player \<Rightarrow> player" where
  "sendIfSocket m p = (if webSocketConnection p \<noteq> None then send m p else p)"

text \<open>
  The \<^verbatim>\<open>onopen\<close> handlers. The default one adds the transceivers to the peer connection,
  creates the offer and sends it; the Janus one sends \<^verbatim>\<open>create\<close>; the echo-test one
  creates the peer connection first (outside any \<^verbatim>\<open>try\<close>, so a throw there ends the
  handler without a report).
\<close>

definition onopenGeneric :: "Env \<Rightarrow> player \<Rightarrow> player" where
  "onopenGeneric env p =
     try_catch
       (if peerConnection p = None then Done p
        else if fails env CreateOffer then Threw p
        else Done (sendIfSocket OfferMsg p))
       (\<lambda>q. report Error (consoleError ''Error creating offer:'' q))"

definition onopenJanus :: "player \<Rightarrow> player" where
  "onopenJanus p = sendIfSocket JanusCreate p"

definition onopenEchoTest :: "Env \<Rightarrow> player \<Rightarrow> player" where
  "onopenEchoTest env p =
     (if fails env NewPeerConnection then p
      else
        let p1 = create PeerConn p
        in try_catch
             (if fails env CreateOffer then Threw p1 else Done (sendIfSocket OfferMsg p1))
             (\<lambda>q. report Error (consoleError ''Error creating offer:'' q)))"

text \<open>The \<^verbatim>\<open>onmessage\<close> handler of the default dialect (\<^verbatim>\<open>initWebRTC\<close>).\<close>

definition onmessageGeneric :: "Env \<Rightarrow> payload \<Rightarrow> player \<Rightarrow> player" where
  "onmessageGeneric env msg p =
     try_catch
       (case msg of
          Malformed \<Rightarrow> Threw p
        | Parsed message \<Rightarrow>
            if message = JNull then Threw p
            else if isStr (getProp message ''type'') ''answer''
                    \<and> truthy (getProp message ''sdp'') \<and> peerConnection p \<noteq> None then
              (if fails env SetRemoteDescription then Threw p else Done p)
            else if isStr (getProp message ''type'') ''ice''
                    \<and> truthy (getProp message ''candidate'') \<and> peerConnection p \<noteq> None then
              (if fails env AddIceCandidate then Threw p else Done p)
            else if isStr (getProp message ''type'') ''error'' then Threw p
            else Done p)
       (\<lambda>q. report Error (consoleError ''Error handling WebSocket message:'' q))"

text \<open>
  The \<^verbatim>\<open>onmessage\<close> handler of \<^verbatim>\<open>connectToJanusServer\<close>, its four branches in the order of
  the source.
\<close>

definition onmessageJanus :: "Env \<Rightarrow> payload \<Rightarrow> player \<Rightarrow> player" where
  "onmessageJanus env msg p =
     try_catch
       (case msg of
          Malformed \<Rightarrow> Threw p
        | Parsed response \<Rightarrow>
            if response = JNull then Threw p
            else if isStr (getProp response ''janus'') ''success''
                    \<and> truthy (optProp (getProp response ''data'') ''id'') then
              (let sid = optProp (getProp response ''data'') ''id''
               in Done (sendIfSocket (JanusAttach sid) (p\<lparr>sessionId := sid\<rparr>)))
            else if isStr (getProp response ''janus'') ''success''
                    \<and> truthy (optProp (getProp response ''data'') ''id'')
                    \<and> \<not> truthy (getProp response ''plugindata'') then
              (let hid = optProp (getProp response ''data'') ''id'';
                   p1 = p\<lparr>handleId := hid\<rparr>
               in if fails env NewPeerConnection then Threw p1
                  else
                    let p2 = create PeerConn p1
                    in if fails env CreateOffer then Threw p2
                       else Done (sendIfSocket (JanusOffer (sessionId p2) hid) p2))
            else if isStr (getProp response ''janus'') ''event''
                    \<and> truthy (getProp response ''jsep'') then
              (if isStr (optProp (getProp response ''jsep'') ''type'') ''answer''
                  \<and> peerConnection p \<noteq> None then
                 (if fails env SetRemoteDescription then Threw p else Done p)
               else Done p)
            else Done p)
       (\<lambda>q. report Error (consoleError ''Error handling Janus message:'' q))"

text \<open>The \<^verbatim>\<open>onmessage\<close> handler of \<^verbatim>\<open>connectToEchoTestServer\<close>.\<close>

definition onmessageEchoTest :: "Env \<Rightarrow> payload \<Rightarrow> player \<Rightarrow> player" where
  "onmessageEchoTest env msg p =
     try_catch
       (case msg of
          Malformed \<Rightarrow> Threw p
        | Parsed message \<Rightarrow>
            if message = JNull then Threw p
            else if isStr (getProp message ''type'') ''answer'' \<and> peerConnection p \<noteq> None then
              (if fails env SetRemoteDescription then Threw p else Done p)
            else if isStr (getProp message ''type'') ''candidate''
                    \<and> peerConnection p \<noteq> None then
              (if fails env AddIceCandidate then Threw p else Done p)
            else Done p)
       (\<lambda>q. report Error (consoleError ''Error handling message:'' q))"

definition onmessage :: "Dialect \<Rightarrow> Env \<Rightarrow> payload \<Rightarrow> player \<Rightarrow> player" where
  "onmessage d env msg p =
     (case d of
        Generic \<Rightarrow> onmessageGeneric env msg p
      | Janus \<Rightarrow> onmessageJanus env msg p
      | EchoTest \<Rightarrow> onmessageEchoTest env msg p)"

text \<open>The \<^verbatim>\<open>onerror\<close> handlers.\<close>

definition onerror :: "Dialect \<Rightarrow> player \<Rightarrow> player" where
  "onerror d p =
     (case d of
        Generic \<Rightarrow> report Error (consoleError ''WebSocket error:'' p)
      | Janus \<Rightarrow> report Error (consoleError ''Janus WebSocket error:'' p)
      | EchoTest \<Rightarrow> report Error p)"

text \<open>The \<^verbatim>\<open>onclose\<close> handler, the same in the three dialects.\<close>

definition onclose :: "player \<Rightarrow> player" where
  "onclose p = (if playerStatus p \<noteq> Success then report Error p else p)"

section \<open>Video player: events\<close>

text \<open>The \<^verbatim>\<open>createEffect\<close> of the component, run when the properties are set.\<close>

definition propsEffect :: "Env \<Rightarrow> VideoFormat \<Rightarrow> string \<Rightarrow> player \<Rightarrow> player" where
  "propsEffect env fmt url p =
     (let p0 = p\<lparr>props_format := fmt, props_url := url\<rparr>
      in if url \<noteq> [] then
           (case destroyPlayers env p0 of
              Done p1 \<Rightarrow> p1\<lparr>pendingInits := Suc (pendingInits p1)\<rparr>
            | Threw q \<Rightarrow> q)
         else p0)"

definition initTimer :: "Env \<Rightarrow> player \<Rightarrow> player" where
  "initTimer env p =
     (if pendingInits p = 0 then p
      else
        (case initializePlayer env (p\<lparr>pendingInits := pendingInits p - 1\<rparr>) of
           Done q \<Rightarrow> q
         | Threw q \<Rightarrow> q))"

text \<open>
  The timer callback in the version with the relay (file \<^verbatim>\<open>unnamed/part_002\<close>), whose
  effect is the same text.
\<close>

definition initTimerRelay :: "(Env \<Rightarrow> player \<Rightarrow> result) \<Rightarrow> Env \<Rightarrow> player \<Rightarrow> player" where
  "initTimerRelay others env p =
     (if pendingInits p = 0 then p
      else
        (case initializePlayerRelay others env (p\<lparr>pendingInits := pendingInits p - 1\<rparr>) of
           Done q \<Rightarrow> q
         | Threw q \<Rightarrow> q))"

text \<open>The \<^verbatim>\<open>onCleanup\<close> of the component.\<close>

definition cleanup :: "Env \<Rightarrow> player \<Rightarrow> player" where
  "cleanup env p =
     (case destroyPlayers env p of
        Done q \<Rightarrow>
          (if videoRef q then
             try_catch (if fails env VideoElementReset then Threw q else Done (q\<lparr>videoSrc := []\<rparr>))
               (consoleError ''Error cleaning up video element:'')
           else q)
      | Threw q \<Rightarrow> q)"

text \<open>
  Events of the socket in \<^verbatim>\<open>webSocketConnection\<close>. Open and message events are delivered
  only while the socket is connecting or open; a socket that a teardown closed delivers
  nothing but its close event.
\<close>

definition socketOpens :: "Env \<Rightarrow> player \<Rightarrow> player" where
  "socketOpens env p =
     (case (webSocketConnection p, socketDialect p) of
        (Some i, Some d) \<Rightarrow>
          if socketState p = CONNECTING then
            (let p1 = p\<lparr>socketState := OPEN\<rparr>
             in case d of
                  Generic \<Rightarrow> onopenGeneric env p1
                | Janus \<Rightarrow> onopenJanus p1
                | EchoTest \<Rightarrow> onopenEchoTest env p1)
          else p
      | _ \<Rightarrow> p)"

definition socketMessage :: "Env \<Rightarrow> payload \<Rightarrow> player \<Rightarrow> player" where
  "socketMessage env msg p =
     (case (webSocketConnection p, socketDialect p) of
        (Some i, Some d) \<Rightarrow> if socketState p = OPEN then onmessage d env msg p else p
      | _ \<Rightarrow> p)"

definition socketFails :: "player \<Rightarrow> player" where
  "socketFails p =
     (case (webSocketConnection p, socketDialect p) of
        (Some i, Some d) \<Rightarrow>
          if socketState p = CONNECTING \<or> socketState p = OPEN then onerror d p else p
      | _ \<Rightarrow> p)"

definition socketCloses :: "player \<Rightarrow> player" where
  "socketCloses p =
     (case webSocketConnection p of
        Some i \<Rightarrow>
          if socketState p = CONNECTING \<or> socketState p = OPEN then
            onclose (p\<lparr>socketState := CLOSED,
                       live := filter (\<lambda>(k', i', g). \<not> (k' = WebSock \<and> i' = i)) (live p)\<rparr>)
          else p
      | None \<Rightarrow> p)"

definition oldSocketCloses :: "player \<Rightarrow> player" where
  "oldSocketCloses p =
     (if closingSockets p = 0 then p
      else onclose (p\<lparr>closingSockets := closingSockets p - 1\<rparr>))"

text \<open>
  The events that run a handler of one component instance. \<open>EngineReports\<close> stands for
  every callback of an engine, of the peer connection or of the video element that
  reports a status.
\<close>

datatype pevent =
    PropsChange Env VideoFormat string
  | InitTimerFires Env
  | SocketOpens Env
  | SocketMessage Env payload
  | SocketFails
  | SocketCloses
  | OldSocketCloses
  | EngineReports Status

fun pstep :: "pevent \<Rightarrow> player \<Rightarrow> player" where
  "pstep (PropsChange env fmt url) p = propsEffect env fmt url p"
| "pstep (InitTimerFires env) p = initTimer env p"
| "pstep (SocketOpens env) p = socketOpens env p"
| "pstep (SocketMessage env msg) p = socketMessage env msg p"
| "pstep SocketFails p = socketFails p"
| "pstep SocketCloses p = socketCloses p"
| "pstep OldSocketCloses p = oldSocketCloses p"
| "pstep (EngineReports st) p = report st p"

definition prun :: "pevent list \<Rightarrow> player \<Rightarrow> player" where
  "prun evs p = foldl (\<lambda>p e. pstep e p) p evs"

text \<open>The component when it is rendered: the surface is bound, nothing else exists yet.\<close>

definition newPlayer :: player where
  "newPlayer =
     \<lparr> videoRef = True, props_format = Hls, props_url = [],
       hlsInstance = None, dashInstance = None, shakaInstance = None,
       peerConnection = None, webSocketConnection = None, flvPlayer = None,
       playerStatus = Loading, videoSrc = [], srcObject = False, overlays = [],
       socketState = CLOSED, socketDialect = None, sessionId = None, handleId = None,
       pendingInits = 0, closingSockets = 0,
       live = [], generation = 0, nextId = 0, trace = [] \<rparr>"

text \<open>A runtime in which every probe succeeds and no call throws.\<close>

definition fullRuntime :: Env where
  "fullRuntime =
     \<lparr> hlsSupported = True, nativeHls = False, flvSupported = True, shakaSupported = True,
       rtcSupported = True, fails = (\<lambda>c. False) \<rparr>"

text \<open>The network requests and connections started so far.\<close>

definition requests :: "player \<Rightarrow> string list" where
  "requests p = concat (map (\<lambda>e. case e of Request u \<Rightarrow> [u] | _ \<Rightarrow> []) (trace p))"

text \<open>The statuses reported to the parent so far.\<close>

definition reports :: "player \<Rightarrow> Status list" where
  "reports p = concat (map (\<lambda>e. case e of Reported st \<Rightarrow> [st] | _ \<Rightarrow> []) (trace p))"

text \<open>The instances whose release operation was invoked so far.\<close>

definition releases :: "player \<Rightarrow> (EngineKind \<times> nat) list" where
  "releases p = concat (map (\<lambda>e. case e of Released k i \<Rightarrow> [(k, i)] | _ \<Rightarrow> []) (trace p))"

text \<open>The instances created so far.\<close>

definition creations :: "player \<Rightarrow> (EngineKind \<times> nat) list" where
  "creations p = concat (map (\<lambda>e. case e of Created k i \<Rightarrow> [(k, i)] | _ \<Rightarrow> []) (trace p))"



text \<open>
  What a component does when it is handed a format and a URL: the effect, and then the
  timer callback the effect scheduled. The second definition is the same for the version
  with the relay.
\<close>

definition startThenInit :: "Env \<Rightarrow> Env \<Rightarrow> VideoFormat \<Rightarrow> string \<Rightarrow> player \<Rightarrow> player" where
  "startThenInit env env' fmt url p = initTimer env' (propsEffect env fmt url p)"

definition startThenInitRelay ::
  "(Env \<Rightarrow> player \<Rightarrow> result) \<Rightarrow> Env \<Rightarrow> Env \<Rightarrow> VideoFormat \<Rightarrow> string \<Rightarrow> player \<Rightarrow> player" where
  "startThenInitRelay others env env' fmt url p =
     initTimerRelay others env' (propsEffect env fmt url p)"

text \<open>
  A value for the parameter \<open>others\<close> of \<open>dispatchRelay\<close> that does nothing; the cases
  it stands for are never reached with the formats rtmp, rtsp and srt.
\<close>

definition noOtherCases :: "Env \<Rightarrow> player \<Rightarrow> result" where
  "noOtherCases env p = Done p"

text \<open>A runtime like \<open>fullRuntime\<close> in which flv.js reports no support.\<close>

definition noFlvRuntime :: Env where
  "noFlvRuntime = fullRuntime\<lparr>flvSupported := False\<rparr>"

text \<open>The overlay headline of each case without a playback path, in the two versions.\<close>

definition unsupportedHeadline :: "VideoFormat \<Rightarrow> string" where
  "unsupportedHeadline fmt =
     (case fmt of
        Rtmp \<Rightarrow> ''RTMP requires a custom implementation''
      | Rtsp \<Rightarrow> ''RTSP is not supported in browsers''
      | _ \<Rightarrow> ''SRT is not supported in browsers'')"

definition unsupportedHeadlineRelay :: "VideoFormat \<Rightarrow> string" where
  "unsupportedHeadlineRelay fmt =
     (case fmt of
        Rtmp \<Rightarrow> ''RTMP Playback Not Supported''
      | Rtsp \<Rightarrow> ''RTSP is not supported in browsers''
      | _ \<Rightarrow> ''SRT is not supported in browsers'')"

section \<open>The player area of the stream tester\<close>

text \<open>
  The stream tester renders the player inside \<^verbatim>\<open><Show when={isTestActive()}>\<close>: a component
  instance, with handle variables and a video element of its own, is created each time
  a test becomes active and disposed of when it stops. Disposal runs \<^verbatim>\<open>onCleanup\<close> and
  nothing else: the timers, sockets and engines of the instance keep their callbacks, so
  its handlers can still run afterwards. \<open>mounted\<close> is the instance on screen and
  \<open>disposed\<close> lists the instances disposed of so far, oldest first.
\<close>

record area =
  mounted :: "player option"
  disposed :: "player list"

definition emptyArea :: area where
  "emptyArea = \<lparr> mounted = None, disposed = [] \<rparr>"

text \<open>
  \<open>TestStarts\<close>: \<^verbatim>\<open>isTestActive\<close> becomes true, the component is rendered with the format
  and URL and its effect runs. \<open>TestStops\<close>: \<^verbatim>\<open>isTestActive\<close> becomes false and the
  component is disposed of. \<open>OnMounted\<close> and \<open>OnDisposed\<close> run a handler of the mounted
  instance or of the \<open>i\<close>-th disposed one; the effect of a disposed instance no longer
  runs.
\<close>

datatype aevent =
    TestStarts Env VideoFormat string
  | TestStops Env
  | OnMounted pevent
  | OnDisposed nat pevent

fun isPropsChange :: "pevent \<Rightarrow> bool" where
  "isPropsChange (PropsChange env fmt url) = True"
| "isPropsChange e = False"

fun astep :: "aevent \<Rightarrow> area \<Rightarrow> area" where
  "astep (TestStarts env fmt url) a =
     (case mounted a of
        None \<Rightarrow> a\<lparr>mounted := Some (propsEffect env fmt url newPlayer)\<rparr>
      | Some p \<Rightarrow> a)"
| "astep (TestStops env) a =
     (case mounted a of
        None \<Rightarrow> a
      | Some p \<Rightarrow> a\<lparr>mounted := None, disposed := disposed a @ [cleanup env p]\<rparr>)"
| "astep (OnMounted e) a =
     (case mounted a of
        None \<Rightarrow> a
      | Some p \<Rightarrow> a\<lparr>mounted := Some (pstep e p)\<rparr>)"
| "astep (OnDisposed i e) a =
     (if i < length (disposed a) \<and> \<not> isPropsChange e then
        a\<lparr>disposed := (disposed a)[i := pstep e (disposed a ! i)]\<rparr>
      else a)"

definition arun :: "aevent list \<Rightarrow> area \<Rightarrow> area" where
  "arun evs a = foldl (\<lambda>a e. astep e a) a evs"

text \<open>The instances of the player area, the mounted one last.\<close>

definition instances :: "area \<Rightarrow> player list" where
  "instances a = disposed a @ (case mounted a of None \<Rightarrow> [] | Some p \<Rightarrow> [p])"

text \<open>
  The engines and connections live in the player area: for each component instance (by
  position in \<open>instances\<close>), the kind and serial number of what it created and has not
  released.
\<close>

definition liveInArea :: "area \<Rightarrow> (nat \<times> EngineKind \<times> nat) list" where
  "liveInArea a =
     concat (map (\<lambda>(n, p). map (\<lambda>(k, i, g). (n, k, i)) (live p))
               (zip [0 ..< length (instances a)] (instances a)))"

text \<open>
  A test is started and stopped again before the 50 ms timer of the effect is due; the
  timer then fires on the disposed instance; a second test is started and its timer
  fires.
\<close>

definition stopBeforeInit :: "aevent list" where
  "stopBeforeInit =
     [TestStarts fullRuntime Hls ''https://test-streams.mux.dev/x36xhzz/x36xhzz.m3u8'',
      TestStops fullRuntime,
      OnDisposed 0 (InitTimerFires fullRuntime)]"

definition stopBeforeInitThenStart :: "aevent list" where
  "stopBeforeInitThenStart =
     stopBeforeInit @
     [TestStarts fullRuntime Hls ''https://test-streams.mux.dev/x36xhzz/x36xhzz.m3u8'',
      OnMounted (InitTimerFires fullRuntime)]"

text \<open>
  A runtime in which \<^verbatim>\<open>flvPlayer.pause()\<close> throws, and a test on an FLV URL followed by a
  change of format and URL and the initialization it schedules, in that runtime.
\<close>

definition flvPauseThrows :: Env where
  "flvPauseThrows = fullRuntime\<lparr>fails := (\<lambda>c. c = FlvPause)\<rparr>"

definition flvThenHls :: "pevent list" where
  "flvThenHls =
     [PropsChange flvPauseThrows Flv ''https://samples.mux.dev/big_buck_bunny_720p_1mb.flv'',
      InitTimerFires flvPauseThrows,
      PropsChange flvPauseThrows Hls ''https://test-streams.mux.dev/x36xhzz/x36xhzz.m3u8'',
      InitTimerFires flvPauseThrows]"

section \<open>Verified properties of the stream tester\<close>

subsection \<open>Facts about the catalogue and the handlers\<close>

lemma js_rem_nonneg: "0 \<le> a \<Longrightarrow> 0 < b \<Longrightarrow> js_rem a b = a mod b"
  by (cases "a = 0") (simp_all add: js_rem_def)

lemma getBackupCount_pos: "0 < getBackupCount fmt"
  by (cases fmt) (simp_all add: getBackupCount_def)

lemma first_backup_nonempty: "getCurrentUrl fmt 0 \<noteq> []"
  by (cases fmt) (simp_all add: getCurrentUrl_def)


lemma handleStartTest_fields:
  "selectedFormat (handleStartTest now s) = selectedFormat s"
  "backupUrlIndex (handleStartTest now s) = backupUrlIndex s"
  "inputUrl (handleStartTest now s) = inputUrl s"
  by (simp_all add: handleStartTest_def Let_def)

lemma handleStatusChange_format:
  "selectedFormat (handleStatusChange st now s) = selectedFormat s"
  by (simp add: handleStatusChange_def Let_def handleStartTest_fields)

lemma debouncedUrlChange_fields:
  "selectedFormat (debouncedUrlChange u b s) = selectedFormat s"
  "backupUrlIndex (debouncedUrlChange u b s) = backupUrlIndex s"
  by (simp_all add: debouncedUrlChange_def)

lemma debouncedFormatChange_format:
  "selectedFormat (debouncedFormatChange fmt s) = selectedFormat s"
  by (simp add: debouncedFormatChange_def)

lemma formatChangeCallback_index:
  "selectedFormat (formatChangeCallback s) \<noteq> selectedFormat s \<Longrightarrow>
   backupUrlIndex (formatChangeCallback s) = - 1"
  by (cases "formatChangeTimer s") (simp_all add: formatChangeCallback_def resetBackupIndex_def)

lemma formatChangeCallback_pending:
  "formatChangeTimer s = Some fmt \<Longrightarrow>
   selectedFormat (formatChangeCallback s) = fmt \<and> backupUrlIndex (formatChangeCallback s) = - 1"
  by (simp add: formatChangeCallback_def resetBackupIndex_def)

lemma urlChangeCallback_format: "selectedFormat (urlChangeCallback s) = selectedFormat s"
  by (cases "urlChangeTimer s")
     (simp_all add: urlChangeCallback_def resetBackupIndex_def Let_def split: prod.splits)

lemma primaryUrlClick_format: "selectedFormat (primaryUrlClick s) = selectedFormat s"
  by (simp add: primaryUrlClick_def debouncedUrlChange_fields resetBackupIndex_def)

lemma backupUrlClick_format: "selectedFormat (backupUrlClick s) = selectedFormat s"
  by (simp add: backupUrlClick_def Let_def debouncedUrlChange_fields)

lemma tryPrimaryClick_format: "selectedFormat (tryPrimaryClick now s) = selectedFormat s"
  by (simp add: tryPrimaryClick_def handleStartTest_fields debouncedUrlChange_fields
        resetBackupIndex_def)

lemma tryNextBackupClick_format: "selectedFormat (tryNextBackupClick s) = selectedFormat s"
  by (simp add: tryNextBackupClick_def Let_def debouncedUrlChange_fields)

lemma startTimerCallback_format: "selectedFormat (startTimerCallback now s) = selectedFormat s"
  by (simp add: startTimerCallback_def handleStartTest_fields)

lemma resetPlayStatusCallback_format:
  "selectedFormat (resetPlayStatusCallback s) = selectedFormat s"
  by (simp add: resetPlayStatusCallback_def Let_def split: list.splits)

lemma step_keeps_format:
  "a \<noteq> FormatTimer \<Longrightarrow> selectedFormat (step a s) = selectedFormat s"
  by (cases a)
     (simp_all add: debouncedFormatChange_format debouncedUrlChange_fields
        urlChangeCallback_format primaryUrlClick_format backupUrlClick_format
        handleStartTest_fields handleStopTest_def handleStatusChange_format
        tryPrimaryClick_format tryNextBackupClick_format startTimerCallback_format
        resetPlayStatusCallback_format)

lemma backupUrlClick_index:
  "- 1 \<le> backupUrlIndex s \<Longrightarrow>
   backupUrlIndex (backupUrlClick s) = (backupUrlIndex s + 1) mod getBackupCount (selectedFormat s)"
  by (simp add: backupUrlClick_def Let_def debouncedUrlChange_fields getBackupCount_pos
        js_rem_nonneg)

lemma tryNextBackupClick_index:
  "- 1 \<le> backupUrlIndex s \<Longrightarrow>
   backupUrlIndex (tryNextBackupClick s) = (backupUrlIndex s + 1) mod getBackupCount (selectedFormat s)"
  by (simp add: tryNextBackupClick_def Let_def debouncedUrlChange_fields getBackupCount_pos
        js_rem_nonneg)

lemma userFallbackStep_format: "selectedFormat (userFallbackStep b s) = selectedFormat s"
  by (simp add: userFallbackStep_def backupUrlClick_format tryNextBackupClick_format)

lemma userFallbackStep_index:
  "- 1 \<le> backupUrlIndex s \<Longrightarrow>
   backupUrlIndex (userFallbackStep b s) = (backupUrlIndex s + 1) mod getBackupCount (selectedFormat s)"
  by (simp add: userFallbackStep_def backupUrlClick_index tryNextBackupClick_index)

lemma userFallbackSteps_format:
  "selectedFormat (foldl (\<lambda>s b. userFallbackStep b s) s bs) = selectedFormat s"
  by (induction bs arbitrary: s) (simp_all add: userFallbackStep_format)

lemma userFallbackSteps_index:
  "- 1 \<le> backupUrlIndex s \<Longrightarrow> bs \<noteq> [] \<Longrightarrow>
   backupUrlIndex (foldl (\<lambda>s b. userFallbackStep b s) s bs)
     = (backupUrlIndex s + int (length bs)) mod getBackupCount (selectedFormat s)"
proof (induction bs arbitrary: s)
  case Nil
  then show ?case by simp
next
  case (Cons b bs)
  let ?n = "getBackupCount (selectedFormat s)"
  let ?s1 = "userFallbackStep b s"
  have pos: "0 < ?n" by (rule getBackupCount_pos)
  have i1: "backupUrlIndex ?s1 = (backupUrlIndex s + 1) mod ?n"
    using Cons.prems(1) by (rule userFallbackStep_index)
  have f1: "selectedFormat ?s1 = selectedFormat s" by (rule userFallbackStep_format)
  show ?case
  proof (cases "bs = []")
    case True
    then show ?thesis using i1 by simp
  next
    case False
    have "0 \<le> (backupUrlIndex s + 1) mod ?n" using pos by (rule pos_mod_sign)
    then have ge: "- 1 \<le> backupUrlIndex ?s1" using i1 by simp
    have "backupUrlIndex (foldl (\<lambda>s b. userFallbackStep b s) ?s1 bs)
            = (backupUrlIndex ?s1 + int (length bs)) mod ?n"
      using Cons.IH [OF ge False] f1 by simp
    also have "\<dots> = ((backupUrlIndex s + 1) + int (length bs)) mod ?n"
      unfolding i1 by (simp add: mod_add_left_eq)
    also have "(backupUrlIndex s + 1) + int (length bs) = backupUrlIndex s + int (length (b # bs))"
      by simp
    finally show ?thesis by simp
  qed
qed

lemma automatic_fallback_index:
  "\<not> isTestActive s \<Longrightarrow> backupUrlIndex s = - 1 \<Longrightarrow>
   backupUrlIndex (handleStatusChange Error now s) = 0"
  by (simp add: handleStatusChange_def Let_def handleStartTest_fields getBackupCount_pos)

text \<open>The backup index never drops below \<open>-1\<close>, whatever events run.\<close>

lemma step_index_lower_bound:
  assumes "- 1 \<le> backupUrlIndex s"
  shows "- 1 \<le> backupUrlIndex (step a s)"
proof (cases a)
  case (SelectFormat fmt)
  then show ?thesis using assms by (simp add: debouncedFormatChange_def)
next
  case FormatTimer
  then show ?thesis using assms
    by (cases "formatChangeTimer s") (simp_all add: formatChangeCallback_def resetBackupIndex_def)
next
  case (UrlInput url)
  then show ?thesis using assms by (simp add: debouncedUrlChange_fields)
next
  case UrlTimer
  then show ?thesis using assms
    by (cases "urlChangeTimer s")
       (simp_all add: urlChangeCallback_def resetBackupIndex_def Let_def split: prod.splits)
next
  case PrimaryUrl
  then show ?thesis using assms
    by (simp add: primaryUrlClick_def debouncedUrlChange_fields resetBackupIndex_def)
next
  case BackupUrl
  have "0 \<le> (backupUrlIndex s + 1) mod getBackupCount (selectedFormat s)"
    using getBackupCount_pos by (rule pos_mod_sign)
  then show ?thesis using BackupUrl assms by (simp add: backupUrlClick_index)
next
  case (StartClick now)
  then show ?thesis using assms by (simp add: handleStartTest_fields)
next
  case StopClick
  then show ?thesis using assms by (simp add: handleStopTest_def)
next
  case (PlayerStatus st now)
  then show ?thesis using assms
    by (simp add: handleStatusChange_def Let_def handleStartTest_fields)
next
  case (TryPrimary now)
  then show ?thesis using assms
    by (simp add: tryPrimaryClick_def handleStartTest_fields debouncedUrlChange_fields
          resetBackupIndex_def)
next
  case TryNextBackup
  have "0 \<le> (backupUrlIndex s + 1) mod getBackupCount (selectedFormat s)"
    using getBackupCount_pos by (rule pos_mod_sign)
  then show ?thesis using TryNextBackup assms by (simp add: tryNextBackupClick_index)
next
  case (StartTimer now)
  then show ?thesis using assms by (simp add: startTimerCallback_def handleStartTest_fields)
next
  case ResetTimer
  then show ?thesis using assms
    by (simp add: resetPlayStatusCallback_def Let_def split: list.splits)
qed

lemma run_index_lower_bound:
  "- 1 \<le> backupUrlIndex s \<Longrightarrow> - 1 \<le> backupUrlIndex (run acts s)"
proof (induction acts arbitrary: s)
  case Nil
  then show ?case by (simp add: run_def)
next
  case (Cons a acts)
  have "- 1 \<le> backupUrlIndex (step a s)" using Cons.prems by (rule step_index_lower_bound)
  then show ?case using Cons.IH [of "step a s"] by (simp add: run_def)
qed

lemma reachable_index_lower_bound: "- 1 \<le> backupUrlIndex (run acts initialTester)"
  by (rule run_index_lower_bound) (simp add: initialTester_def)

subsection \<open>Start of a test without a URL\<close>

text \<open>
  Claim C10. When the input URL is the empty string, \<open>handleStartTest\<close> only shows the
  alert: no record is appended to the result log, the status signal keeps its value, no
  test becomes active, and every other signal and pending timer is untouched. The
  enabled "Start Test" button behaves the same way.
\<close>

theorem start_without_url_is_noop:
  "inputUrl s = [] \<Longrightarrow>
     handleStartTest now s = s\<lparr>alerts := Suc (alerts s)\<rparr>
   \<and> results (handleStartTest now s) = results s
   \<and> status (handleStartTest now s) = status s
   \<and> isTestActive (handleStartTest now s) = isTestActive s
   \<and> results (step (StartClick now) s) = results s
   \<and> status (step (StartClick now) s) = status s
   \<and> isTestActive (step (StartClick now) s) = isTestActive s"
  by (simp add: handleStartTest_def)

theorem start_without_url_is_noop_witness:
  "inputUrl (initialTester\<lparr>inputUrl := []\<rparr>) = []
   \<and> results (handleStartTest 7 (initialTester\<lparr>inputUrl := []\<rparr>)) = []
   \<and> status (handleStartTest 7 (initialTester\<lparr>inputUrl := []\<rparr>)) = Loading
   \<and> \<not> isTestActive (handleStartTest 7 (initialTester\<lparr>inputUrl := []\<rparr>))"
  using start_without_url_is_noop [of "initialTester\<lparr>inputUrl := []\<rparr>" 7]
  by (simp add: initialTester_def)

subsection \<open>Fallback steps\<close>

text \<open>
  Claim C5. Every format of the catalogue has backup URLs. From a backup index of at
  least \<open>-1\<close>, which is all the component ever holds, each fallback step sets the index to
  \<open>(current + 1) mod backupCount\<close>: the "Backup URL" button, the "Try Next Backup Source"
  button, and the automatic step of \<open>handleStatusChange\<close> when its guard lets it run (it
  starts from \<open>-1\<close> and selects \<open>0\<close>). Hence any non-empty run of user-triggered steps
  ends at \<open>(start + number of steps) mod backupCount\<close>, without changing the format: from
  \<open>-1\<close> the first step selects \<open>0\<close>, and the index cycles with period \<open>backupCount\<close>.
\<close>

theorem fallback_step_wraps_around:
  "- 1 \<le> backupUrlIndex s \<Longrightarrow>
     0 < getBackupCount (selectedFormat s)
   \<and> backupUrlIndex (backupUrlClick s)
       = (backupUrlIndex s + 1) mod getBackupCount (selectedFormat s)
   \<and> backupUrlIndex (tryNextBackupClick s)
       = (backupUrlIndex s + 1) mod getBackupCount (selectedFormat s)
   \<and> (\<not> isTestActive s \<and> backupUrlIndex s = - 1 \<longrightarrow>
        backupUrlIndex (handleStatusChange Error now s)
          = (backupUrlIndex s + 1) mod getBackupCount (selectedFormat s))
   \<and> (bs \<noteq> [] \<longrightarrow>
        backupUrlIndex (foldl (\<lambda>s b. userFallbackStep b s) s bs)
          = (backupUrlIndex s + int (length bs)) mod getBackupCount (selectedFormat s))
   \<and> selectedFormat (foldl (\<lambda>s b. userFallbackStep b s) s bs) = selectedFormat s"
  by (simp add: getBackupCount_pos backupUrlClick_index tryNextBackupClick_index
        automatic_fallback_index userFallbackSteps_index userFallbackSteps_format)

theorem fallback_step_wraps_around_witness:
  "- 1 \<le> backupUrlIndex initialTester
   \<and> getBackupCount (selectedFormat initialTester) = 3
   \<and> backupUrlIndex (backupUrlClick initialTester) = 0
   \<and> backupUrlIndex (handleStatusChange Error 5 initialTester) = 0
   \<and> backupUrlIndex
        (foldl (\<lambda>s b. userFallbackStep b s) initialTester [False, True, False, True]) = 0
   \<and> backupUrlIndex
        (foldl (\<lambda>s b. userFallbackStep b s) initialTester [False, True, False]) = 2"
  using fallback_step_wraps_around [of initialTester 5 "[False, True, False, True]"]
    fallback_step_wraps_around [of initialTester 5 "[False, True, False]"]
  by (simp add: initialTester_def getBackupCount_def)

subsection \<open>Format changes\<close>

text \<open>
  Claim C7. Whatever event runs, if it changes the selected format then the backup index
  is \<open>-1\<close> afterwards. The two places that select a format are the pending callback of
  \<open>debouncedFormatChange\<close> (a single selection) and the first batch of a sweep step; both
  leave the requested format with index \<open>-1\<close>, and the start of the sweep's test keeps it.
\<close>

theorem format_change_resets_backup_index:
  "(selectedFormat (step a s) \<noteq> selectedFormat s \<longrightarrow> backupUrlIndex (step a s) = - 1)
   \<and> (formatChangeTimer s = Some fmt \<longrightarrow>
        selectedFormat (formatChangeCallback s) = fmt
        \<and> backupUrlIndex (formatChangeCallback s) = - 1)
   \<and> selectedFormat (sweepSelect fmt s) = fmt
   \<and> backupUrlIndex (sweepSelect fmt s) = - 1
   \<and> selectedFormat (sweepStart fmt now (sweepSelect fmt s)) = fmt
   \<and> backupUrlIndex (sweepStart fmt now (sweepSelect fmt s)) = - 1"
proof -
  have "selectedFormat (step a s) \<noteq> selectedFormat s \<longrightarrow> backupUrlIndex (step a s) = - 1"
  proof (cases "a = FormatTimer")
    case True
    then show ?thesis using formatChangeCallback_index [of s] by simp
  next
    case False
    then show ?thesis by (simp add: step_keeps_format)
  qed
  moreover have "formatChangeTimer s = Some fmt \<longrightarrow>
        selectedFormat (formatChangeCallback s) = fmt
        \<and> backupUrlIndex (formatChangeCallback s) = - 1"
    using formatChangeCallback_pending [of s fmt] by blast
  moreover have "selectedFormat (sweepSelect fmt s) = fmt \<and> backupUrlIndex (sweepSelect fmt s) = - 1"
    by (simp add: sweepSelect_def resetBackupIndex_def)
  moreover have "selectedFormat (sweepStart fmt now (sweepSelect fmt s)) = fmt
      \<and> backupUrlIndex (sweepStart fmt now (sweepSelect fmt s)) = - 1"
    by (simp add: sweepStart_def sweepSelect_def resetBackupIndex_def Let_def)
  ultimately show ?thesis by blast
qed

theorem format_change_resets_backup_index_witness:
  "backupUrlIndex (run [BackupUrl, UrlTimer, SelectFormat Dash] initialTester) = 0
   \<and> selectedFormat (run [BackupUrl, UrlTimer, SelectFormat Dash] initialTester) = Hls
   \<and> selectedFormat (step FormatTimer (run [BackupUrl, UrlTimer, SelectFormat Dash] initialTester)) = Dash
   \<and> backupUrlIndex (step FormatTimer (run [BackupUrl, UrlTimer, SelectFormat Dash] initialTester)) = - 1"
  using format_change_resets_backup_index
    [of FormatTimer "run [BackupUrl, UrlTimer, SelectFormat Dash] initialTester" Dash 0]
  by (simp add: run_def initialTester_def backupUrlClick_def getBackupCount_def js_rem_def
        debouncedUrlChange_def urlChangeCallback_def debouncedFormatChange_def
        formatChangeCallback_def resetBackupIndex_def getCurrentUrl_def Let_def)

subsection \<open>The result log\<close>

lemma first_backup_is_head: "getCurrentUrl fmt 0 = SAMPLE_BACKUPS fmt ! 0"
  by (cases fmt) (simp_all add: getCurrentUrl_def)

lemma handleStartTest_started:
  "inputUrl s \<noteq> [] \<Longrightarrow>
   handleStartTest now s =
     s\<lparr>isTestActive := True, status := Loading,
       results := take 10 (\<lparr> r_format = selectedFormat s, r_url = inputUrl s,
                             r_status = Tested Loading, r_timestamp = now \<rparr> # results s)\<rparr>"
  by (simp add: handleStartTest_def Let_def)

text \<open>The head record with its status overwritten, as the updater of \<open>handleStatusChange\<close> computes it.\<close>

lemma handleStatusChange_plain:
  "st \<noteq> Error \<or> isTestActive s \<or> backupUrlIndex s \<noteq> - 1 \<Longrightarrow>
   handleStatusChange st now s =
     s\<lparr>status := st,
       results := (case results s of [] \<Rightarrow> [] | r # rs \<Rightarrow> r\<lparr>r_status := Tested st\<rparr> # rs)\<rparr>"
  by (auto simp: handleStatusChange_def Let_def)

lemma handleStatusChange_fallback:
  "\<not> isTestActive s \<Longrightarrow> backupUrlIndex s = - 1 \<Longrightarrow>
   handleStatusChange Error now s =
     s\<lparr>status := Loading, isTestActive := True, backupUrlIndex := 0,
       inputUrl := getCurrentUrl (selectedFormat s) 0,
       results := take 10
         (\<lparr> r_format = selectedFormat s, r_url = getCurrentUrl (selectedFormat s) 0,
            r_status = Tested Loading, r_timestamp = now \<rparr>
          # (case results s of [] \<Rightarrow> [] | r # rs \<Rightarrow> r\<lparr>r_status := Tested Error\<rparr> # rs))\<rparr>"
  by (simp add: handleStatusChange_def Let_def getBackupCount_pos handleStartTest_def
        first_backup_nonempty)

lemma callbacks_overwrite_head:
  "isTestActive s \<Longrightarrow> results s = r # rs \<Longrightarrow> cbs \<noteq> [] \<Longrightarrow>
   results (run (map (\<lambda>(st, t). PlayerStatus st t) cbs) s)
     = r\<lparr>r_status := Tested (fst (last cbs))\<rparr> # rs
   \<and> isTestActive (run (map (\<lambda>(st, t). PlayerStatus st t) cbs) s)"
proof (induction cbs arbitrary: s r)
  case Nil
  then show ?case by simp
next
  case (Cons c cbs)
  obtain st t where c: "c = (st, t)" by (cases c)
  let ?s1 = "handleStatusChange st t s"
  have s1: "?s1 = s\<lparr>status := st, results := r\<lparr>r_status := Tested st\<rparr> # rs\<rparr>"
    using Cons.prems(1,2) by (simp add: handleStatusChange_plain)
  show ?case
  proof (cases "cbs = []")
    case True
    then show ?thesis using c s1 Cons.prems(1) by (simp add: run_def)
  next
    case False
    have a: "isTestActive ?s1" using s1 Cons.prems(1) by simp
    have b: "results ?s1 = r\<lparr>r_status := Tested st\<rparr> # rs" using s1 by simp
    have "results (run (map (\<lambda>(st, t). PlayerStatus st t) cbs) ?s1)
            = (r\<lparr>r_status := Tested st\<rparr>)\<lparr>r_status := Tested (fst (last cbs))\<rparr> # rs
          \<and> isTestActive (run (map (\<lambda>(st, t). PlayerStatus st t) cbs) ?s1)"
      using Cons.IH [OF a b False] .
    then show ?thesis using c False by (simp add: run_def)
  qed
qed

text \<open>
  Claim C2, as the code has it. A start with a URL prepends exactly one record with status
  loading and keeps the ten newest records. A status callback overwrites the status of
  the record at the head of the log with the status it reports, whatever that record and
  that status are, and leaves every other record as it was; when the automatic fallback
  runs it then prepends one more loading record. Nothing limits the number of
  overwrites: while a test stays active, after any non-empty series of callbacks the head
  record carries the status of the last one.
\<close>

theorem status_callback_overwrites_head_record:
  "(inputUrl s \<noteq> [] \<longrightarrow>
      results (handleStartTest now s)
        = take 10 (\<lparr> r_format = selectedFormat s, r_url = inputUrl s,
                     r_status = Tested Loading, r_timestamp = now \<rparr> # results s))
   \<and> (st \<noteq> Error \<or> isTestActive s \<or> backupUrlIndex s \<noteq> - 1 \<longrightarrow>
      results (handleStatusChange st now s)
        = (case results s of [] \<Rightarrow> [] | r # rs \<Rightarrow> r\<lparr>r_status := Tested st\<rparr> # rs))
   \<and> (\<not> isTestActive s \<and> backupUrlIndex s = - 1 \<longrightarrow>
      results (handleStatusChange Error now s)
        = take 10
            (\<lparr> r_format = selectedFormat s, r_url = getCurrentUrl (selectedFormat s) 0,
               r_status = Tested Loading, r_timestamp = now \<rparr>
             # (case results s of [] \<Rightarrow> [] | r # rs \<Rightarrow> r\<lparr>r_status := Tested Error\<rparr> # rs)))
   \<and> (isTestActive s \<and> results s = r0 # rs0 \<and> cbs \<noteq> [] \<longrightarrow>
      results (run (map (\<lambda>(st, t). PlayerStatus st t) cbs) s)
        = r0\<lparr>r_status := Tested (fst (last cbs))\<rparr> # rs0)"
  by (simp add: handleStartTest_started handleStatusChange_plain handleStatusChange_fallback
        callbacks_overwrite_head)

theorem status_callback_overwrites_head_record_witness:
  "inputUrl initialTester \<noteq> []
   \<and> isTestActive (handleStartTest 1 initialTester)
   \<and> map r_status (results (handleStartTest 1 initialTester)) = [Tested Loading]
   \<and> map r_status (results (handleStatusChange Loading 2 (handleStartTest 1 initialTester)))
       = [Tested Loading]
   \<and> map r_status
        (results (run (map (\<lambda>(st, t). PlayerStatus st t) [(Loading, 2), (Success, 3), (Error, 4)])
                    (handleStartTest 1 initialTester)))
       = [Tested Error]
   \<and> map r_status (results (handleStatusChange Error 2 initialTester)) = [Tested Loading]"
  using status_callback_overwrites_head_record [of initialTester 1 Loading undefined undefined "[]"]
    status_callback_overwrites_head_record
      [of "handleStartTest 1 initialTester" 2 Loading
          "\<lparr> r_format = Hls, r_url = SAMPLE_STREAMS Hls, r_status = Tested Loading,
             r_timestamp = 1 \<rparr>" "[]" "[(Loading, 2), (Success, 3), (Error, 4)]"]
    status_callback_overwrites_head_record [of initialTester 2 Error undefined undefined "[]"]
  by (simp add: initialTester_def handleStartTest_def Let_def)

text \<open>
  The claim as stated fails. One test is started and its player reports success and later
  an error (a stream that plays and then breaks): the single record of the log goes from
  loading to success and from success to error, two mutations of the same record.
\<close>

theorem record_mutated_once_counterexample:
  "map r_timestamp (results (handleStartTest 1 initialTester)) = [1]
   \<and> map r_status (results (handleStartTest 1 initialTester)) = [Tested Loading]
   \<and> map r_timestamp (results (run [PlayerStatus Success 2] (handleStartTest 1 initialTester))) = [1]
   \<and> map r_status (results (run [PlayerStatus Success 2] (handleStartTest 1 initialTester)))
       = [Tested Success]
   \<and> map r_timestamp
        (results (run [PlayerStatus Success 2, PlayerStatus Error 3] (handleStartTest 1 initialTester)))
       = [1]
   \<and> map r_status
        (results (run [PlayerStatus Success 2, PlayerStatus Error 3] (handleStartTest 1 initialTester)))
       = [Tested Error]"
  by (simp add: run_def initialTester_def handleStartTest_def handleStatusChange_def Let_def)

subsection \<open>Automatic fallback\<close>

text \<open>
  What \<open>handleStatusChange\<close> does around its guard. When an error is reported while no
  test is active and the backup index is \<open>-1\<close>, the first backup URL is selected and a
  test is started with it (index \<open>0\<close>, test active, status loading, one loading record
  for that URL prepended); an error reported right after that changes neither the index
  nor the URL and adds no record. When a test is active, or a backup is already in use,
  or the status is not an error, nothing but the status and the head record changes.
\<close>

lemma automatic_fallback_when_inactive:
  "(\<not> isTestActive s \<and> backupUrlIndex s = - 1 \<longrightarrow>
      backupUrlIndex (handleStatusChange Error now s) = 0
    \<and> inputUrl (handleStatusChange Error now s) = SAMPLE_BACKUPS (selectedFormat s) ! 0
    \<and> inputUrl (handleStatusChange Error now s) \<noteq> []
    \<and> isTestActive (handleStatusChange Error now s)
    \<and> status (handleStatusChange Error now s) = Loading
    \<and> results (handleStatusChange Error now s)
        = take 10
            (\<lparr> r_format = selectedFormat s, r_url = SAMPLE_BACKUPS (selectedFormat s) ! 0,
               r_status = Tested Loading, r_timestamp = now \<rparr>
             # (case results s of [] \<Rightarrow> [] | r # rs \<Rightarrow> r\<lparr>r_status := Tested Error\<rparr> # rs))
    \<and> backupUrlIndex (handleStatusChange Error later (handleStatusChange Error now s)) = 0
    \<and> inputUrl (handleStatusChange Error later (handleStatusChange Error now s))
        = SAMPLE_BACKUPS (selectedFormat s) ! 0
    \<and> length (results (handleStatusChange Error later (handleStatusChange Error now s)))
        = length (results (handleStatusChange Error now s)))
   \<and> (st \<noteq> Error \<or> isTestActive s \<or> backupUrlIndex s \<noteq> - 1 \<longrightarrow>
      handleStatusChange st now s
        = s\<lparr>status := st,
            results := (case results s of [] \<Rightarrow> []
                        | r # rs \<Rightarrow> r\<lparr>r_status := Tested st\<rparr> # rs)\<rparr>)"
proof -
  have plain: "st \<noteq> Error \<or> isTestActive s \<or> backupUrlIndex s \<noteq> - 1 \<longrightarrow>
      handleStatusChange st now s
        = s\<lparr>status := st,
            results := (case results s of [] \<Rightarrow> []
                        | r # rs \<Rightarrow> r\<lparr>r_status := Tested st\<rparr> # rs)\<rparr>"
    using handleStatusChange_plain [of st s now] by blast
  have fb: "\<not> isTestActive s \<and> backupUrlIndex s = - 1 \<longrightarrow>
      backupUrlIndex (handleStatusChange Error now s) = 0
    \<and> inputUrl (handleStatusChange Error now s) = SAMPLE_BACKUPS (selectedFormat s) ! 0
    \<and> inputUrl (handleStatusChange Error now s) \<noteq> []
    \<and> isTestActive (handleStatusChange Error now s)
    \<and> status (handleStatusChange Error now s) = Loading
    \<and> results (handleStatusChange Error now s)
        = take 10
            (\<lparr> r_format = selectedFormat s, r_url = SAMPLE_BACKUPS (selectedFormat s) ! 0,
               r_status = Tested Loading, r_timestamp = now \<rparr>
             # (case results s of [] \<Rightarrow> [] | r # rs \<Rightarrow> r\<lparr>r_status := Tested Error\<rparr> # rs))"
    using first_backup_nonempty [of "selectedFormat s"]
    by (simp add: handleStatusChange_fallback first_backup_is_head)
  have again: "\<not> isTestActive s \<and> backupUrlIndex s = - 1 \<longrightarrow>
      backupUrlIndex (handleStatusChange Error later (handleStatusChange Error now s)) = 0
    \<and> inputUrl (handleStatusChange Error later (handleStatusChange Error now s))
        = SAMPLE_BACKUPS (selectedFormat s) ! 0
    \<and> length (results (handleStatusChange Error later (handleStatusChange Error now s)))
        = length (results (handleStatusChange Error now s))"
  proof
    assume a: "\<not> isTestActive s \<and> backupUrlIndex s = - 1"
    let ?s1 = "handleStatusChange Error now s"
    have act: "isTestActive ?s1" using a fb by blast
    have "handleStatusChange Error later ?s1
            = ?s1\<lparr>status := Error,
                 results := (case results ?s1 of [] \<Rightarrow> []
                             | r # rs \<Rightarrow> r\<lparr>r_status := Tested Error\<rparr> # rs)\<rparr>"
      using act by (simp add: handleStatusChange_plain)
    then show "backupUrlIndex (handleStatusChange Error later ?s1) = 0
      \<and> inputUrl (handleStatusChange Error later ?s1) = SAMPLE_BACKUPS (selectedFormat s) ! 0
      \<and> length (results (handleStatusChange Error later ?s1)) = length (results ?s1)"
      using a fb by (simp split: list.splits)
  qed
  show ?thesis using plain fb again by blast
qed

lemma automatic_fallback_when_inactive_witness:
  "\<not> isTestActive initialTester \<and> backupUrlIndex initialTester = - 1
   \<and> backupUrlIndex (handleStatusChange Error 2 initialTester) = 0
   \<and> inputUrl (handleStatusChange Error 2 initialTester)
       = ''https://demo.unified-streaming.com/k8s/features/stable/video/tears-of-steel/tears-of-steel.ism/.m3u8''
   \<and> isTestActive (handleStatusChange Error 2 initialTester)
   \<and> length (results (handleStatusChange Error 2 initialTester)) = 1
   \<and> isTestActive (handleStartTest 1 initialTester)
   \<and> backupUrlIndex (handleStatusChange Error 2 (handleStartTest 1 initialTester)) = - 1"
  using automatic_fallback_when_inactive [of initialTester 2 3 Error]
    automatic_fallback_when_inactive [of "handleStartTest 1 initialTester" 2 3 Error]
  by (simp add: initialTester_def handleStartTest_def Let_def)

text \<open>
  Claim C6. The comment above the guard of \<open>handleStatusChange\<close> reads
  \<^verbatim>\<open>If error and not already using a backup, try a backup URL automatically\<close>, which is
  what the claim says, but the guard is \<^verbatim>\<open>newStatus === "error" && !isTestActive()\<close>, and
  the player reports only while a test is active. At the input below the code does not
  do what the claim and the comment say: a test on the primary HLS URL is running
  (backup index \<open>-1\<close>, three backup URLs) when its player reports an error; the status
  becomes error, but the index stays \<open>-1\<close>, the URL stays the primary one and no record
  is added, so no fallback has occurred. The step is taken only when the error arrives
  after the test was stopped, and then it starts the stopped test again.
\<close>

theorem automatic_fallback_skipped_during_test:
  "backupUrlIndex (handleStartTest 1 initialTester) = - 1
   \<and> getBackupCount (selectedFormat (handleStartTest 1 initialTester)) = 3
   \<and> status (handleStartTest 1 initialTester) = Loading
   \<and> status (handleStatusChange Error 2 (handleStartTest 1 initialTester)) = Error
   \<and> backupUrlIndex (handleStatusChange Error 2 (handleStartTest 1 initialTester)) = - 1
   \<and> inputUrl (handleStatusChange Error 2 (handleStartTest 1 initialTester)) = SAMPLE_STREAMS Hls
   \<and> map r_status (results (handleStatusChange Error 2 (handleStartTest 1 initialTester)))
       = [Tested Error]
   \<and> backupUrlIndex
        (handleStatusChange Error 3 (handleStopTest (handleStartTest 1 initialTester))) = 0
   \<and> isTestActive
        (handleStatusChange Error 3 (handleStopTest (handleStartTest 1 initialTester)))"
  by (simp add: initialTester_def handleStartTest_def handleStatusChange_def Let_def
        getBackupCount_def handleStopTest_def getCurrentUrl_def)

subsection \<open>The wait of a sweep step\<close>




























section \<open>Verified properties of the video player\<close>

subsection \<open>Facts about the handle variables and the teardown blocks\<close>

declare slot.simps [simp del]

lemma slot_setSlot: "slot (setSlot k h p) k' = (if k' = k then h else slot p k')"
  by (cases k; cases k') (simp_all add: slot.simps)

lemma slot_emit: "slot (emit e p) k = slot p k"
  by (cases k) (simp_all add: emit_def slot.simps)

lemma slot_consoleError: "slot (consoleError msg p) k = slot p k"
  by (simp add: consoleError_def slot_emit)

lemma slot_report: "slot (report st p) k = slot p k"
  by (cases k) (simp_all add: report_def emit_def slot.simps)

lemma slot_overlay: "slot (overlay msg p) k = slot p k"
  by (cases k) (simp_all add: overlay_def emit_def slot.simps)

lemma slot_invokeRelease: "slot (invokeRelease k i p) k' = slot p k'"
  by (cases k') (simp_all add: invokeRelease_def emit_def slot.simps)

lemma slot_releaseHandle:
  "slot (releaseHandle env c msg k p) k' = (if k' = k then None else slot p k')"
  by (cases "slot p k")
     (simp_all add: releaseHandle_def try_catch_def slot_setSlot slot_consoleError
        slot_invokeRelease)

lemma slot_releaseFlv:
  "slot (releaseFlv env p) k = (if k = FlvEngine then None else slot p k)"
  by (cases "flvPlayer p"; cases k)
     (simp_all add: releaseFlv_def try_catch_def consoleError_def emit_def
        invokeRelease_def slot.simps)

lemma slot_closeSocket:
  "slot (closeSocket env p) k = (if k = WebSock then None else slot p k)"
  by (cases "webSocketConnection p"; cases k)
     (simp_all add: closeSocket_def try_catch_def Let_def consoleError_def emit_def
        invokeRelease_def slot.simps)

lemma slot_resetVideo: "slot (resetVideo env p) k = slot p k"
  by (cases k) (simp_all add: resetVideo_def try_catch_def consoleError_def emit_def slot.simps)

lemma slot_clearOverlays: "slot (clearOverlays env p) k = slot p k"
  by (cases k) (simp_all add: clearOverlays_def try_catch_def consoleError_def emit_def slot.simps)

lemma destroyPlayers_Done: "\<exists>q. destroyPlayers env p = Done q"
  by (simp add: destroyPlayers_def Let_def)

lemma destroyPlayers_slots: "destroyPlayers env p = Done q \<Longrightarrow> slot q k = None"
  by (cases k)
     (auto simp: destroyPlayers_def Let_def slot_releaseHandle slot_closeSocket
        slot_resetVideo slot_clearOverlays slot_releaseFlv)

lemma releaseHandle_empty: "slot p k = None \<Longrightarrow> releaseHandle env c msg k p = p"
  by (simp add: releaseHandle_def)

lemma releaseFlv_empty: "slot p FlvEngine = None \<Longrightarrow> releaseFlv env p = p"
  by (simp add: releaseFlv_def slot.simps)

lemma closeSocket_empty: "slot p WebSock = None \<Longrightarrow> closeSocket env p = p"
  by (simp add: closeSocket_def slot.simps)

lemma releases_emit:
  "releases (emit e p) = releases p @ (case e of Released k i \<Rightarrow> [(k, i)] | _ \<Rightarrow> [])"
  by (simp add: releases_def emit_def)

lemma releases_resetVideo: "releases (resetVideo env p) = releases p"
  by (simp add: resetVideo_def try_catch_def consoleError_def releases_emit)
     (simp add: releases_def)

lemma releases_clearOverlays: "releases (clearOverlays env p) = releases p"
  by (simp add: clearOverlays_def try_catch_def consoleError_def releases_emit)
     (simp add: releases_def)

lemma live_resetVideo: "live (resetVideo env p) = live p"
  by (simp add: resetVideo_def try_catch_def consoleError_def emit_def)

lemma live_clearOverlays: "live (clearOverlays env p) = live p"
  by (simp add: clearOverlays_def try_catch_def consoleError_def emit_def)

lemma closingSockets_resetVideo: "closingSockets (resetVideo env p) = closingSockets p"
  by (simp add: resetVideo_def try_catch_def consoleError_def emit_def)

lemma closingSockets_clearOverlays: "closingSockets (clearOverlays env p) = closingSockets p"
  by (simp add: clearOverlays_def try_catch_def consoleError_def emit_def)

lemma destroyPlayers_on_empty:
  assumes "\<forall>k. slot p k = None"
  shows "destroyPlayers env p = Done (clearOverlays env (resetVideo env p))"
  using assms
  by (simp add: destroyPlayers_def Let_def releaseHandle_empty closeSocket_empty
        releaseFlv_empty slot_clearOverlays slot_resetVideo)

subsection \<open>Teardown twice\<close>

text \<open>
  Claim C9. In any state of the component, and whatever the calls of the teardown throw,
  \<open>destroyPlayers\<close> runs to its end, and all six handle variables are empty after it. A
  second call right after it runs to its end as well and invokes no release operation:
  the list of released instances, the live instances and the handle variables are what
  the first call left (only the blocks that reset the video element and remove the
  overlays run again).
\<close>

theorem teardown_twice_releases_once:
  "\<exists>q q'. destroyPlayers env p = Done q
      \<and> (\<forall>k. slot q k = None)
      \<and> destroyPlayers env' q = Done q'
      \<and> q' = clearOverlays env' (resetVideo env' q)
      \<and> releases q' = releases q
      \<and> live q' = live q
      \<and> closingSockets q' = closingSockets q
      \<and> (\<forall>k. slot q' k = None)"
proof -
  obtain q where q: "destroyPlayers env p = Done q"
    using destroyPlayers_Done by blast
  have empty: "\<forall>k. slot q k = None"
    using q by (simp add: destroyPlayers_slots)
  let ?q' = "clearOverlays env' (resetVideo env' q)"
  have second: "destroyPlayers env' q = Done ?q'"
    using empty by (rule destroyPlayers_on_empty)
  have "releases ?q' = releases q" "live ?q' = live q"
    "closingSockets ?q' = closingSockets q" "\<forall>k. slot ?q' k = None"
    using empty
    by (simp_all add: releases_clearOverlays releases_resetVideo live_clearOverlays
          live_resetVideo closingSockets_clearOverlays closingSockets_resetVideo
          slot_clearOverlays slot_resetVideo)
  then show ?thesis using q empty second by blast
qed

theorem teardown_twice_releases_once_witness:
  "\<exists>q q'. destroyPlayers fullRuntime (create HlsEngine newPlayer) = Done q
      \<and> destroyPlayers fullRuntime q = Done q'
      \<and> releases q = [(HlsEngine, 0)]
      \<and> releases q' = [(HlsEngine, 0)]
      \<and> live q = [] \<and> live q' = []
      \<and> hlsInstance (create HlsEngine newPlayer) = Some 0
      \<and> hlsInstance q = None \<and> hlsInstance q' = None"
proof -
  let ?p = "create HlsEngine newPlayer"
  from teardown_twice_releases_once [of fullRuntime ?p fullRuntime]
  obtain q q' where q: "destroyPlayers fullRuntime ?p = Done q"
    and q': "destroyPlayers fullRuntime q = Done q'"
    and same: "releases q' = releases q" "live q' = live q"
    and empty: "\<forall>k. slot q k = None" "\<forall>k. slot q' k = None"
    by blast
  have ev: "destroyPlayers fullRuntime ?p
      = Done (newPlayer\<lparr>nextId := 1, trace := [Created HlsEngine 0, Released HlsEngine 0, ElementReset]\<rparr>)"
    by (simp add: destroyPlayers_def releaseHandle_def closeSocket_def resetVideo_def
          clearOverlays_def releaseFlv_def try_catch_def invokeRelease_def create_def
          emit_def fullRuntime_def newPlayer_def slot.simps Let_def)
  have r: "releases q = [(HlsEngine, 0)]" "live q = []"
    using q ev by (auto simp: releases_def newPlayer_def)
  have h: "hlsInstance ?p = Some 0" by (simp add: create_def emit_def newPlayer_def)
  have "hlsInstance q = None" "hlsInstance q' = None"
    using empty [rule_format, of HlsEngine] by (simp_all add: slot.simps)
  then show ?thesis using q q' same r h by auto
qed

subsection \<open>What the teardown leaves alone\<close>

lemma slot_update:
  "slot (p\<lparr>hlsInstance := h\<rparr>) k = (if k = HlsEngine then h else slot p k)"
  "slot (p\<lparr>dashInstance := h\<rparr>) k = (if k = DashEngine then h else slot p k)"
  "slot (p\<lparr>shakaInstance := h\<rparr>) k = (if k = ShakaEngine then h else slot p k)"
  "slot (p\<lparr>peerConnection := h\<rparr>) k = (if k = PeerConn then h else slot p k)"
  "slot (p\<lparr>webSocketConnection := h\<rparr>) k = (if k = WebSock then h else slot p k)"
  "slot (p\<lparr>flvPlayer := h\<rparr>) k = (if k = FlvEngine then h else slot p k)"
  by (cases k; simp add: slot.simps)+

lemma slot_other_update:
  "slot (p\<lparr>videoSrc := a\<rparr>) k = slot p k"
  "slot (p\<lparr>srcObject := b\<rparr>) k = slot p k"
  "slot (p\<lparr>overlays := c\<rparr>) k = slot p k"
  "slot (p\<lparr>generation := d\<rparr>) k = slot p k"
  "slot (p\<lparr>playerStatus := e\<rparr>) k = slot p k"
  "slot (p\<lparr>trace := f\<rparr>) k = slot p k"
  "slot (p\<lparr>live := g\<rparr>) k = slot p k"
  "slot (p\<lparr>nextId := h\<rparr>) k = slot p k"
  "slot (p\<lparr>socketState := i\<rparr>) k = slot p k"
  "slot (p\<lparr>socketDialect := j\<rparr>) k = slot p k"
  "slot (p\<lparr>sessionId := l\<rparr>) k = slot p k"
  "slot (p\<lparr>handleId := m\<rparr>) k = slot p k"
  "slot (p\<lparr>pendingInits := n\<rparr>) k = slot p k"
  "slot (p\<lparr>closingSockets := n\<rparr>) k = slot p k"
  "slot (p\<lparr>props_format := q\<rparr>) k = slot p k"
  "slot (p\<lparr>props_url := r\<rparr>) k = slot p k"
  by (cases k; simp add: slot.simps)+

text \<open>What a teardown block never touches.\<close>

lemma releaseHandle_frame:
  "requests (releaseHandle env c msg k p) = requests p"
  "creations (releaseHandle env c msg k p) = creations p"
  "reports (releaseHandle env c msg k p) = reports p"
  "props_format (releaseHandle env c msg k p) = props_format p"
  "props_url (releaseHandle env c msg k p) = props_url p"
  "videoRef (releaseHandle env c msg k p) = videoRef p"
  "generation (releaseHandle env c msg k p) = generation p"
  "playerStatus (releaseHandle env c msg k p) = playerStatus p"
  "pendingInits (releaseHandle env c msg k p) = pendingInits p"
  by (cases "slot p k"; cases k;
      simp add: releaseHandle_def try_catch_def invokeRelease_def consoleError_def emit_def
        requests_def creations_def reports_def)+

lemma releaseFlv_frame:
  "requests (releaseFlv env p) = requests p"
  "creations (releaseFlv env p) = creations p"
  "reports (releaseFlv env p) = reports p"
  "props_format (releaseFlv env p) = props_format p"
  "props_url (releaseFlv env p) = props_url p"
  "videoRef (releaseFlv env p) = videoRef p"
  "generation (releaseFlv env p) = generation p"
  "playerStatus (releaseFlv env p) = playerStatus p"
  "pendingInits (releaseFlv env p) = pendingInits p"
  by (cases "flvPlayer p";
      simp add: releaseFlv_def try_catch_def invokeRelease_def consoleError_def emit_def
        requests_def creations_def reports_def)+

lemma closeSocket_frame:
  "requests (closeSocket env p) = requests p"
  "creations (closeSocket env p) = creations p"
  "reports (closeSocket env p) = reports p"
  "props_format (closeSocket env p) = props_format p"
  "props_url (closeSocket env p) = props_url p"
  "videoRef (closeSocket env p) = videoRef p"
  "generation (closeSocket env p) = generation p"
  "playerStatus (closeSocket env p) = playerStatus p"
  "pendingInits (closeSocket env p) = pendingInits p"
  by (cases "webSocketConnection p";
      simp add: closeSocket_def try_catch_def invokeRelease_def consoleError_def emit_def
        requests_def creations_def reports_def Let_def)+

lemma resetVideo_frame:
  "requests (resetVideo env p) = requests p"
  "creations (resetVideo env p) = creations p"
  "reports (resetVideo env p) = reports p"
  "props_format (resetVideo env p) = props_format p"
  "props_url (resetVideo env p) = props_url p"
  "videoRef (resetVideo env p) = videoRef p"
  "generation (resetVideo env p) = generation p"
  "playerStatus (resetVideo env p) = playerStatus p"
  "pendingInits (resetVideo env p) = pendingInits p"
  by (simp_all add: resetVideo_def try_catch_def consoleError_def emit_def
        requests_def creations_def reports_def)

lemma clearOverlays_frame:
  "requests (clearOverlays env p) = requests p"
  "creations (clearOverlays env p) = creations p"
  "reports (clearOverlays env p) = reports p"
  "props_format (clearOverlays env p) = props_format p"
  "props_url (clearOverlays env p) = props_url p"
  "videoRef (clearOverlays env p) = videoRef p"
  "generation (clearOverlays env p) = generation p"
  "playerStatus (clearOverlays env p) = playerStatus p"
  "pendingInits (clearOverlays env p) = pendingInits p"
  by (simp_all add: clearOverlays_def try_catch_def consoleError_def emit_def
        requests_def creations_def reports_def)

lemma destroyPlayers_frame:
  assumes "destroyPlayers env p = Done q"
  shows "requests q = requests p" "creations q = creations p" "reports q = reports p"
    "props_format q = props_format p" "props_url q = props_url p" "videoRef q = videoRef p"
    "generation q = generation p" "playerStatus q = playerStatus p"
    "pendingInits q = pendingInits p"
  using assms
  by (auto simp: destroyPlayers_def Let_def releaseHandle_frame closeSocket_frame
        resetVideo_frame clearOverlays_frame releaseFlv_frame)

subsection \<open>Formats without a playback path\<close>

lemma trace_functions_pendingInits:
  "requests (p\<lparr>pendingInits := n\<rparr>) = requests p"
  "creations (p\<lparr>pendingInits := n\<rparr>) = creations p"
  "reports (p\<lparr>pendingInits := n\<rparr>) = reports p"
  by (simp_all add: requests_def creations_def reports_def)

text \<open>The effect reports nothing and starts nothing; it schedules one initialization.\<close>

lemma propsEffect_frame:
  assumes "url \<noteq> []"
  shows "requests (propsEffect env fmt url p) = requests p"
    "creations (propsEffect env fmt url p) = creations p"
    "reports (propsEffect env fmt url p) = reports p"
    "props_format (propsEffect env fmt url p) = fmt"
    "props_url (propsEffect env fmt url p) = url"
    "videoRef (propsEffect env fmt url p) = videoRef p"
    "pendingInits (propsEffect env fmt url p) = Suc (pendingInits p)"
proof -
  let ?p0 = "p\<lparr>props_format := fmt, props_url := url\<rparr>"
  obtain q where q: "destroyPlayers env ?p0 = Done q"
    using destroyPlayers_Done by blast
  have e: "propsEffect env fmt url p = q\<lparr>pendingInits := Suc (pendingInits q)\<rparr>"
    using assms q by (simp add: propsEffect_def Let_def)
  have r: "requests ?p0 = requests p" "creations ?p0 = creations p" "reports ?p0 = reports p"
    by (simp_all add: requests_def creations_def reports_def)
  show "requests (propsEffect env fmt url p) = requests p"
    "creations (propsEffect env fmt url p) = creations p"
    "reports (propsEffect env fmt url p) = reports p"
    "props_format (propsEffect env fmt url p) = fmt"
    "props_url (propsEffect env fmt url p) = url"
    "videoRef (propsEffect env fmt url p) = videoRef p"
    "pendingInits (propsEffect env fmt url p) = Suc (pendingInits p)"
    using destroyPlayers_frame [OF q] r by (simp_all add: e trace_functions_pendingInits)
qed

text \<open>The state after the two reports and the overlay, seen from the teardown's result.\<close>

lemma unsupported_outcome:
  assumes q0: "destroyPlayers env p = Done q0"
    and q: "q = overlay msg (report Error
                  (report Loading (q0\<lparr>videoSrc := [], generation := Suc (generation q0)\<rparr>)))"
  shows "trace q = trace q0 @ [Reported Loading, Reported Error, Overlay msg]
      \<and> playerStatus q = Error
      \<and> reports q = reports p @ [Loading, Error]
      \<and> requests q = requests p \<and> creations q = creations p
      \<and> (\<forall>k. slot q k = None)"
proof -
  have t: "trace q = trace q0 @ [Reported Loading, Reported Error, Overlay msg]"
    by (simp add: q overlay_def report_def emit_def)
  have st: "playerStatus q = Error"
    by (simp add: q overlay_def report_def emit_def)
  have rq: "requests q = requests q0" "creations q = creations q0"
    "reports q = reports q0 @ [Loading, Error]"
    by (simp_all add: requests_def creations_def reports_def t)
  have sl: "\<forall>k. slot q k = None"
    using destroyPlayers_slots [OF q0]
    by (simp add: q overlay_def report_def emit_def slot_other_update)
  show ?thesis
    using t st rq sl destroyPlayers_frame(1,2,3) [OF q0] by simp
qed

lemma initializePlayer_unsupported:
  assumes ref: "videoRef p"
    and f: "props_format p = Rtmp \<or> props_format p = Rtsp \<or> props_format p = Srt"
  shows "\<exists>q0 q. destroyPlayers env p = Done q0 \<and> initializePlayer env p = Done q
           \<and> trace q = trace q0 @
               [Reported Loading, Reported Error, Overlay (unsupportedHeadline (props_format p))]
           \<and> playerStatus q = Error
           \<and> reports q = reports p @ [Loading, Error]
           \<and> requests q = requests p \<and> creations q = creations p
           \<and> (\<forall>k. slot q k = None)"
proof -
  obtain q0 where q0: "destroyPlayers env p = Done q0"
    using destroyPlayers_Done by blast
  let ?p2 = "report Loading (q0\<lparr>videoSrc := [], generation := Suc (generation q0)\<rparr>)"
  let ?m = "unsupportedHeadline (props_format p)"
  have fmt: "props_format ?p2 = props_format p"
    using destroyPlayers_frame(4) [OF q0] by (simp add: report_def emit_def)
  have d: "dispatch env ?p2 = Done (overlay ?m (report Error ?p2))"
    using f fmt by (auto simp: dispatch_def unsupportedHeadline_def)
  have i: "initializePlayer env p = Done (overlay ?m (report Error ?p2))"
    using ref q0 d destroyPlayers_frame(6) [OF q0]
    by (simp add: initializePlayer_def Let_def try_catch_def)
  show ?thesis
    using unsupported_outcome [OF q0 refl, of ?m] q0 i by blast
qed

lemma initializePlayerRelay_unsupported:
  assumes ref: "videoRef p"
    and f: "props_format p = Rtmp \<and> \<not> flvSupported env
        \<or> props_format p = Rtsp \<or> props_format p = Srt"
  shows "\<exists>q0 q. destroyPlayers env p = Done q0
           \<and> initializePlayerRelay others env p = Done q
           \<and> trace q = trace q0 @
               [Reported Loading, Reported Error,
                Overlay (unsupportedHeadlineRelay (props_format p))]
           \<and> playerStatus q = Error
           \<and> reports q = reports p @ [Loading, Error]
           \<and> requests q = requests p \<and> creations q = creations p
           \<and> (\<forall>k. slot q k = None)"
proof -
  obtain q0 where q0: "destroyPlayers env p = Done q0"
    using destroyPlayers_Done by blast
  let ?p2 = "report Loading (q0\<lparr>videoSrc := [], generation := Suc (generation q0)\<rparr>)"
  let ?m = "unsupportedHeadlineRelay (props_format p)"
  have fmt: "props_format ?p2 = props_format p"
    using destroyPlayers_frame(4) [OF q0] by (simp add: report_def emit_def)
  have vr2: "videoRef (report Error ?p2)"
    using ref destroyPlayers_frame(6) [OF q0] by (simp add: report_def emit_def)
  have c: "\<not> flvSupported env \<Longrightarrow>
      rtmpRelayCase env ?p2 = overlay ''RTMP Playback Not Supported'' (report Error ?p2)"
    using vr2
    by (simp add: rtmpRelayCase_def try_catch_def showRtmpFallbackOptions_def Let_def)
  have d: "dispatchRelay others env ?p2 = Done (overlay ?m (report Error ?p2))"
    using f fmt c by (auto simp: dispatchRelay_def unsupportedHeadlineRelay_def)
  have i: "initializePlayerRelay others env p = Done (overlay ?m (report Error ?p2))"
    using ref q0 d by (simp add: initializePlayerRelay_def Let_def try_catch_def)
  show ?thesis
    using unsupported_outcome [OF q0 refl, of ?m] q0 i by blast
qed

text \<open>The relay attempt of the rtmp case when flv.js is supported and nothing throws.\<close>

lemma requests_request: "requests (request u p) = requests p @ [u]"
  by (simp add: request_def emit_def requests_def)

lemma trace_setSlot: "trace (setSlot k h p) = trace p"
  by (cases k) simp_all

lemma playerStatus_setSlot: "playerStatus (setSlot k h p) = playerStatus p"
  by (cases k) simp_all

lemma requests_create: "requests (create k p) = requests p"
  by (simp add: create_def emit_def requests_def trace_setSlot)

lemma requests_createLocal: "requests (createLocal k p) = requests p"
  by (simp add: createLocal_def emit_def requests_def)

lemma reports_request: "reports (request u p) = reports p"
  by (simp add: request_def emit_def reports_def)

lemma reports_create: "reports (create k p) = reports p"
  by (simp add: create_def emit_def reports_def trace_setSlot)

lemma reports_createLocal: "reports (createLocal k p) = reports p"
  by (simp add: createLocal_def emit_def reports_def)

lemma playerStatus_request_createLocal:
  "playerStatus (request v (createLocal k p)) = playerStatus p"
  by (simp add: request_def createLocal_def emit_def)

lemma tryHlsAlternative_quiet:
  assumes "\<forall>c. \<not> fails env c"
  shows "\<exists>us. requests (tryHlsAlternative env u p) = requests p @ us"
    "reports (tryHlsAlternative env u p) = reports p"
    "playerStatus (tryHlsAlternative env u p) = playerStatus p"
proof -
  have "tryHlsAlternative env u p = p
      \<or> (\<exists>v. tryHlsAlternative env u p = request v (createLocal HlsEngine p))"
    using assms by (auto simp: tryHlsAlternative_def try_catch_def Let_def)
  then show "\<exists>us. requests (tryHlsAlternative env u p) = requests p @ us"
    "reports (tryHlsAlternative env u p) = reports p"
    "playerStatus (tryHlsAlternative env u p) = playerStatus p"
    by (auto simp: requests_request requests_createLocal reports_request reports_createLocal
          playerStatus_request_createLocal)
qed

lemma rtmpRelayCase_attempt:
  assumes flv: "flvSupported env" and ok: "\<forall>c. \<not> fails env c"
  shows "\<exists>us. requests (rtmpRelayCase env p) = requests p @ us \<and> us \<noteq> []"
    "reports (rtmpRelayCase env p) = reports p"
    "playerStatus (rtmpRelayCase env p) = playerStatus p"
    "flvPlayer (rtmpRelayCase env p) \<noteq> None"
proof -
  let ?p1 = "if startsWith (props_url p) ''rtmp://'' then tryHlsAlternative env (props_url p) p
             else p"
  have "\<exists>us. requests ?p1 = requests p @ us"
    using tryHlsAlternative_quiet(1) [OF ok, of "props_url p" p]
    by (cases "startsWith (props_url p) ''rtmp://''") simp_all
  then obtain us where us: "requests ?p1 = requests p @ us" ..
  have r1: "reports ?p1 = reports p" "playerStatus ?p1 = playerStatus p"
    using tryHlsAlternative_quiet(2,3) [OF ok, of "props_url p" p] by auto
  obtain u where c: "rtmpRelayCase env p = request u (create FlvEngine ?p1)"
    using flv ok by (simp add: rtmpRelayCase_def try_catch_def Let_def)
  have "requests (rtmpRelayCase env p) = requests p @ (us @ [u])"
    by (simp add: c requests_request requests_create us)
  then show "\<exists>us. requests (rtmpRelayCase env p) = requests p @ us \<and> us \<noteq> []"
    by blast
  show "reports (rtmpRelayCase env p) = reports p"
    by (simp add: c reports_request reports_create r1)
  show "playerStatus (rtmpRelayCase env p) = playerStatus p"
    using r1(2) by (simp add: c request_def create_def emit_def playerStatus_setSlot)
  show "flvPlayer (rtmpRelayCase env p) \<noteq> None"
    by (simp add: c request_def create_def emit_def)
qed

lemma initializePlayerRelay_attempt:
  assumes ref: "videoRef p" and f: "props_format p = Rtmp"
    and flv: "flvSupported env" and ok: "\<forall>c. \<not> fails env c"
  shows "\<exists>q us. initializePlayerRelay others env p = Done q
           \<and> requests q = requests p @ us \<and> us \<noteq> []
           \<and> reports q = reports p @ [Loading]
           \<and> playerStatus q = Loading
           \<and> flvPlayer q \<noteq> None"
proof -
  obtain q0 where q0: "destroyPlayers env p = Done q0"
    using destroyPlayers_Done by blast
  let ?p2 = "report Loading (q0\<lparr>videoSrc := [], generation := Suc (generation q0)\<rparr>)"
  have fmt: "props_format ?p2 = Rtmp"
    using f destroyPlayers_frame(4) [OF q0] by (simp add: report_def emit_def)
  have i: "initializePlayerRelay others env p = Done (rtmpRelayCase env ?p2)"
    using ref q0 fmt by (simp add: initializePlayerRelay_def Let_def try_catch_def dispatchRelay_def)
  have p2: "requests ?p2 = requests p" "reports ?p2 = reports p @ [Loading]"
    "playerStatus ?p2 = Loading"
    using destroyPlayers_frame(1,3) [OF q0]
    by (simp_all add: report_def emit_def requests_def reports_def)
  obtain us where us: "requests (rtmpRelayCase env ?p2) = requests ?p2 @ us" "us \<noteq> []"
    using rtmpRelayCase_attempt(1) [OF flv ok, of ?p2] by blast
  show ?thesis
    using i us p2 rtmpRelayCase_attempt(2,3,4) [OF flv ok, of ?p2] by auto
qed

lemma initTimer_pending:
  "pendingInits p = Suc n \<Longrightarrow>
   initTimer env p = (case initializePlayer env (p\<lparr>pendingInits := n\<rparr>) of
                        Done q \<Rightarrow> q | Threw q \<Rightarrow> q)"
  by (simp add: initTimer_def)

lemma initTimerRelay_pending:
  "pendingInits p = Suc n \<Longrightarrow>
   initTimerRelay others env p
     = (case initializePlayerRelay others env (p\<lparr>pendingInits := n\<rparr>) of
          Done q \<Rightarrow> q | Threw q \<Rightarrow> q)"
  by (simp add: initTimerRelay_def)

text \<open>
  Claim C4, as the code has it. A component with its surface bound is handed a format
  and a non-empty URL. The effect itself reports nothing and starts nothing: it
  schedules one initialization. For rtmp, rtsp and srt that initialization ends inside
  the one call with the reports loading and error and an overlay that names the protocol
  as unsupported; the status is error, no request or connection is started, no engine or
  connection instance is created, and all handle variables are empty. In the version of
  the component that tries an HTTP-FLV relay for rtmp the same holds for rtsp and srt,
  and for rtmp when flv.js reports no support. When flv.js is supported and no call
  throws, the rtmp case of that version creates an FLV engine and starts at least one
  request, and the initialization reports loading only: no error is reported inside the
  call, whether or not a relay answers at the derived address.
\<close>

theorem unsupported_protocols_fail_at_initialization:
  assumes ref: "videoRef p" and url: "url \<noteq> []"
  shows
    "(fmt = Rtmp \<or> fmt = Rtsp \<or> fmt = Srt \<longrightarrow>
        reports (propsEffect env fmt url p) = reports p
      \<and> requests (propsEffect env fmt url p) = requests p
      \<and> creations (propsEffect env fmt url p) = creations p
      \<and> pendingInits (propsEffect env fmt url p) = Suc (pendingInits p)
      \<and> reports (startThenInit env env' fmt url p) = reports p @ [Loading, Error]
      \<and> playerStatus (startThenInit env env' fmt url p) = Error
      \<and> (\<exists>t. trace (startThenInit env env' fmt url p)
              = t @ [Reported Loading, Reported Error, Overlay (unsupportedHeadline fmt)])
      \<and> requests (startThenInit env env' fmt url p) = requests p
      \<and> creations (startThenInit env env' fmt url p) = creations p
      \<and> (\<forall>k. slot (startThenInit env env' fmt url p) k = None))
   \<and> (fmt = Rtmp \<and> \<not> flvSupported env' \<or> fmt = Rtsp \<or> fmt = Srt \<longrightarrow>
        reports (startThenInitRelay others env env' fmt url p) = reports p @ [Loading, Error]
      \<and> playerStatus (startThenInitRelay others env env' fmt url p) = Error
      \<and> (\<exists>t. trace (startThenInitRelay others env env' fmt url p)
              = t @ [Reported Loading, Reported Error, Overlay (unsupportedHeadlineRelay fmt)])
      \<and> requests (startThenInitRelay others env env' fmt url p) = requests p
      \<and> creations (startThenInitRelay others env env' fmt url p) = creations p
      \<and> (\<forall>k. slot (startThenInitRelay others env env' fmt url p) k = None))
   \<and> (fmt = Rtmp \<and> flvSupported env' \<and> (\<forall>c. \<not> fails env' c) \<longrightarrow>
        reports (startThenInitRelay others env env' fmt url p) = reports p @ [Loading]
      \<and> playerStatus (startThenInitRelay others env env' fmt url p) = Loading
      \<and> flvPlayer (startThenInitRelay others env env' fmt url p) \<noteq> None
      \<and> (\<exists>us. requests (startThenInitRelay others env env' fmt url p) = requests p @ us
              \<and> us \<noteq> []))"
proof -
  let ?e = "propsEffect env fmt url p"
  let ?p' = "?e\<lparr>pendingInits := pendingInits p\<rparr>"
  note pf = propsEffect_frame [OF url, of env fmt p]
  have pend: "pendingInits ?e = Suc (pendingInits p)" using pf(7) .
  have ref': "videoRef ?p'" using ref pf(6) by simp
  have fmt': "props_format ?p' = fmt" using pf(4) by simp
  have base: "requests ?p' = requests p" "creations ?p' = creations p" "reports ?p' = reports p"
    using pf(1,2,3) by (simp_all add: trace_functions_pendingInits)
  have a: "fmt = Rtmp \<or> fmt = Rtsp \<or> fmt = Srt \<longrightarrow>
        reports ?e = reports p \<and> requests ?e = requests p \<and> creations ?e = creations p
      \<and> pendingInits ?e = Suc (pendingInits p)
      \<and> reports (startThenInit env env' fmt url p) = reports p @ [Loading, Error]
      \<and> playerStatus (startThenInit env env' fmt url p) = Error
      \<and> (\<exists>t. trace (startThenInit env env' fmt url p)
              = t @ [Reported Loading, Reported Error, Overlay (unsupportedHeadline fmt)])
      \<and> requests (startThenInit env env' fmt url p) = requests p
      \<and> creations (startThenInit env env' fmt url p) = creations p
      \<and> (\<forall>k. slot (startThenInit env env' fmt url p) k = None)"
  proof
    assume f: "fmt = Rtmp \<or> fmt = Rtsp \<or> fmt = Srt"
    then have "props_format ?p' = Rtmp \<or> props_format ?p' = Rtsp \<or> props_format ?p' = Srt"
      using fmt' by simp
    from initializePlayer_unsupported [OF ref' this, of env']
    obtain q0 :: player and q where q: "initializePlayer env' ?p' = Done q"
      and t: "trace q = trace q0 @
               [Reported Loading, Reported Error, Overlay (unsupportedHeadline (props_format ?p'))]"
      and r: "playerStatus q = Error" "reports q = reports ?p' @ [Loading, Error]"
        "requests q = requests ?p'" "creations q = creations ?p'" "\<forall>k. slot q k = None"
      by blast
    have s: "startThenInit env env' fmt url p = q"
      using q by (simp add: startThenInit_def initTimer_pending [OF pend])
    show "reports ?e = reports p \<and> requests ?e = requests p \<and> creations ?e = creations p
      \<and> pendingInits ?e = Suc (pendingInits p)
      \<and> reports (startThenInit env env' fmt url p) = reports p @ [Loading, Error]
      \<and> playerStatus (startThenInit env env' fmt url p) = Error
      \<and> (\<exists>t. trace (startThenInit env env' fmt url p)
              = t @ [Reported Loading, Reported Error, Overlay (unsupportedHeadline fmt)])
      \<and> requests (startThenInit env env' fmt url p) = requests p
      \<and> creations (startThenInit env env' fmt url p) = creations p
      \<and> (\<forall>k. slot (startThenInit env env' fmt url p) k = None)"
      using pf(1,2,3) pend t r base fmt' unfolding s by auto
  qed
  have b: "fmt = Rtmp \<and> \<not> flvSupported env' \<or> fmt = Rtsp \<or> fmt = Srt \<longrightarrow>
        reports (startThenInitRelay others env env' fmt url p) = reports p @ [Loading, Error]
      \<and> playerStatus (startThenInitRelay others env env' fmt url p) = Error
      \<and> (\<exists>t. trace (startThenInitRelay others env env' fmt url p)
              = t @ [Reported Loading, Reported Error, Overlay (unsupportedHeadlineRelay fmt)])
      \<and> requests (startThenInitRelay others env env' fmt url p) = requests p
      \<and> creations (startThenInitRelay others env env' fmt url p) = creations p
      \<and> (\<forall>k. slot (startThenInitRelay others env env' fmt url p) k = None)"
  proof
    assume f: "fmt = Rtmp \<and> \<not> flvSupported env' \<or> fmt = Rtsp \<or> fmt = Srt"
    then have "props_format ?p' = Rtmp \<and> \<not> flvSupported env'
        \<or> props_format ?p' = Rtsp \<or> props_format ?p' = Srt"
      using fmt' by simp
    from initializePlayerRelay_unsupported [OF ref' this, of others]
    obtain q0 :: player and q where q: "initializePlayerRelay others env' ?p' = Done q"
      and t: "trace q = trace q0 @
               [Reported Loading, Reported Error,
                Overlay (unsupportedHeadlineRelay (props_format ?p'))]"
      and r: "playerStatus q = Error" "reports q = reports ?p' @ [Loading, Error]"
        "requests q = requests ?p'" "creations q = creations ?p'" "\<forall>k. slot q k = None"
      by blast
    have s: "startThenInitRelay others env env' fmt url p = q"
      using q by (simp add: startThenInitRelay_def initTimerRelay_pending [OF pend])
    show "reports (startThenInitRelay others env env' fmt url p) = reports p @ [Loading, Error]
      \<and> playerStatus (startThenInitRelay others env env' fmt url p) = Error
      \<and> (\<exists>t. trace (startThenInitRelay others env env' fmt url p)
              = t @ [Reported Loading, Reported Error, Overlay (unsupportedHeadlineRelay fmt)])
      \<and> requests (startThenInitRelay others env env' fmt url p) = requests p
      \<and> creations (startThenInitRelay others env env' fmt url p) = creations p
      \<and> (\<forall>k. slot (startThenInitRelay others env env' fmt url p) k = None)"
      using t r base fmt' unfolding s by auto
  qed
  have c: "fmt = Rtmp \<and> flvSupported env' \<and> (\<forall>c. \<not> fails env' c) \<longrightarrow>
        reports (startThenInitRelay others env env' fmt url p) = reports p @ [Loading]
      \<and> playerStatus (startThenInitRelay others env env' fmt url p) = Loading
      \<and> flvPlayer (startThenInitRelay others env env' fmt url p) \<noteq> None
      \<and> (\<exists>us. requests (startThenInitRelay others env env' fmt url p) = requests p @ us
              \<and> us \<noteq> [])"
  proof
    assume f: "fmt = Rtmp \<and> flvSupported env' \<and> (\<forall>c. \<not> fails env' c)"
    then have f': "props_format ?p' = Rtmp" using fmt' by simp
    from initializePlayerRelay_attempt [OF ref' f', of env' others] f
    obtain q us where q: "initializePlayerRelay others env' ?p' = Done q"
      and r: "requests q = requests ?p' @ us" "us \<noteq> []" "reports q = reports ?p' @ [Loading]"
        "playerStatus q = Loading" "flvPlayer q \<noteq> None"
      by blast
    have s: "startThenInitRelay others env env' fmt url p = q"
      using q by (simp add: startThenInitRelay_def initTimerRelay_pending [OF pend])
    show "reports (startThenInitRelay others env env' fmt url p) = reports p @ [Loading]
      \<and> playerStatus (startThenInitRelay others env env' fmt url p) = Loading
      \<and> flvPlayer (startThenInitRelay others env env' fmt url p) \<noteq> None
      \<and> (\<exists>us. requests (startThenInitRelay others env env' fmt url p) = requests p @ us
              \<and> us \<noteq> [])"
      using r base unfolding s by auto
  qed
  show ?thesis using a b c by blast
qed

theorem unsupported_protocols_fail_at_initialization_witness:
  "videoRef newPlayer
   \<and> reports (startThenInit fullRuntime fullRuntime Srt ''srt://18.138.248.25:30000'' newPlayer)
       = [Loading, Error]
   \<and> requests (startThenInit fullRuntime fullRuntime Srt ''srt://18.138.248.25:30000'' newPlayer)
       = []
   \<and> reports (startThenInit fullRuntime fullRuntime Rtmp ''rtmp://live.twitch.tv/app/'' newPlayer)
       = [Loading, Error]
   \<and> requests (startThenInit fullRuntime fullRuntime Rtmp ''rtmp://live.twitch.tv/app/'' newPlayer)
       = []
   \<and> reports (startThenInit fullRuntime fullRuntime Rtsp
        ''rtsp://wowzaec2demo.streamlock.net/vod/mp4:BigBuckBunny_115k.mp4'' newPlayer)
       = [Loading, Error]
   \<and> \<not> flvSupported noFlvRuntime
   \<and> reports (startThenInitRelay noOtherCases noFlvRuntime noFlvRuntime Rtmp
        ''rtmp://live.twitch.tv/app/'' newPlayer) = [Loading, Error]
   \<and> requests (startThenInitRelay noOtherCases noFlvRuntime noFlvRuntime Rtmp
        ''rtmp://live.twitch.tv/app/'' newPlayer) = []
   \<and> flvSupported fullRuntime
   \<and> reports (startThenInitRelay noOtherCases fullRuntime fullRuntime Rtmp
        ''rtmp://live.twitch.tv/app/'' newPlayer) = [Loading]
   \<and> flvPlayer (startThenInitRelay noOtherCases fullRuntime fullRuntime Rtmp
        ''rtmp://live.twitch.tv/app/'' newPlayer) \<noteq> None"
proof -
  have ref: "videoRef newPlayer" by (simp add: newPlayer_def)
  have e: "requests newPlayer = []" "reports newPlayer = []"
    by (simp_all add: requests_def reports_def newPlayer_def)
  have rt: "\<not> flvSupported noFlvRuntime" "flvSupported fullRuntime"
    "\<forall>c. \<not> fails fullRuntime c"
    by (simp_all add: noFlvRuntime_def fullRuntime_def)
  have u: "''srt://18.138.248.25:30000'' \<noteq> []" "''rtmp://live.twitch.tv/app/'' \<noteq> []"
    "''rtsp://wowzaec2demo.streamlock.net/vod/mp4:BigBuckBunny_115k.mp4'' \<noteq> []"
    by simp_all
  note t = unsupported_protocols_fail_at_initialization [OF ref]
  show ?thesis
    using t [OF u(1), of Srt fullRuntime fullRuntime noOtherCases]
      t [OF u(2), of Rtmp fullRuntime fullRuntime noOtherCases]
      t [OF u(3), of Rtsp fullRuntime fullRuntime noOtherCases]
      t [OF u(2), of Rtmp noFlvRuntime noFlvRuntime noOtherCases]
      ref e rt
    by simp
qed

text \<open>
  The claim as stated fails in the version with the relay. The component is handed the
  rtmp sample URL in a browser that supports flv.js and hls.js. Nothing in the code can
  tell whether the server offers a relay; the initialization creates a temporary HLS
  engine and the FLV engine and starts two requests, for a guessed playlist and for the
  derived HTTP-FLV address, and the only report made is loading.
\<close>

theorem relay_attempt_counterexample:
  "requests (startThenInitRelay noOtherCases fullRuntime fullRuntime Rtmp
       ''rtmp://live.twitch.tv/app/'' newPlayer)
     = [''https://live.twitch.tv/app//playlist.m3u8'', ''https://live.twitch.tv/app/.flv'']
   \<and> reports (startThenInitRelay noOtherCases fullRuntime fullRuntime Rtmp
       ''rtmp://live.twitch.tv/app/'' newPlayer) = [Loading]
   \<and> playerStatus (startThenInitRelay noOtherCases fullRuntime fullRuntime Rtmp
       ''rtmp://live.twitch.tv/app/'' newPlayer) = Loading
   \<and> creations (startThenInitRelay noOtherCases fullRuntime fullRuntime Rtmp
       ''rtmp://live.twitch.tv/app/'' newPlayer) = [(HlsEngine, 0), (FlvEngine, 1)]"
  by code_simp

subsection \<open>Signaling messages\<close>






lemma report_trace: "trace (report st p) = trace p @ [Reported st]"
  by (simp add: report_def emit_def)





subsection \<open>Teardown before initialization\<close>

text \<open>
  When \<^verbatim>\<open>pause()\<close> of the FLV engine throws, the teardown clears the handle variable
  without having invoked \<^verbatim>\<open>destroy()\<close>: after the next initialization the FLV engine and
  the new HLS engine are both live, and nothing has been released.
\<close>

lemma flv_engine_survives_failed_teardown:
  "live (prun flvThenHls newPlayer) = [(FlvEngine, 0, 1), (HlsEngine, 1, 2)]
   \<and> flvPlayer (prun flvThenHls newPlayer) = None
   \<and> hlsInstance (prun flvThenHls newPlayer) = Some 1
   \<and> releases (prun flvThenHls newPlayer) = []"
  by code_simp

text \<open>
  Claim C1. The effect, the initialization and the cleanup of the component each run
  \<open>destroyPlayers\<close> first, and the comments of the cleanup say that all resources are to
  be released when the component unmounts and that intervals and timeouts are to be
  cleared. But the 50 ms timer of the effect is never cancelled. At the input below the
  code does not do what the claim and these comments say. A test is started and stopped
  before the timer is due; the timer fires on the disposed instance, whose last teardown
  has already run, and creates an HLS engine that requests the stream. A second start
  mounts a new instance with handle variables of its own, so its teardown finds nothing
  to release; once its timer has fired two engines are live in the player area, no
  release operation has ever been invoked, and both instances have requested the stream.
\<close>

theorem teardown_missed_by_pending_init_timer:
  "mounted (arun stopBeforeInit emptyArea) = None
   \<and> map pendingInits (disposed (arun (butlast stopBeforeInit) emptyArea)) = [1]
   \<and> liveInArea (arun (butlast stopBeforeInit) emptyArea) = []
   \<and> liveInArea (arun stopBeforeInit emptyArea) = [(0, HlsEngine, 0)]
   \<and> map hlsInstance (instances (arun stopBeforeInit emptyArea)) = [Some 0]
   \<and> liveInArea (arun stopBeforeInitThenStart emptyArea) = [(0, HlsEngine, 0), (1, HlsEngine, 0)]
   \<and> map releases (instances (arun stopBeforeInitThenStart emptyArea)) = [[], []]
   \<and> map creations (instances (arun stopBeforeInitThenStart emptyArea))
       = [[(HlsEngine, 0)], [(HlsEngine, 0)]]
   \<and> map requests (instances (arun stopBeforeInitThenStart emptyArea))
       = [[''https://test-streams.mux.dev/x36xhzz/x36xhzz.m3u8''],
          [''https://test-streams.mux.dev/x36xhzz/x36xhzz.m3u8'']]
   \<and> map reports (instances (arun stopBeforeInitThenStart emptyArea))
       = [[Loading], [Loading]]"
  by code_simp

end
